theory Spec2Isabelle
  imports Main "HOL-Library.Multiset"
begin

section \<open>Values shared by both deployment variants\<close>

text \<open>
  Document ids (\<open>Id<"users">\<close>, \<open>Id<"devices">\<close>) are strings at run time.
\<close>

type_synonym doc_id = string

text \<open>
  JavaScript truthiness of an optional string (\<open>user.pushToken\<close>, \<open>notificationId\<close>,
  \<open>args.excludeDeviceId\<close>, the result of \<open>getAuthUserId\<close>): \<open>undefined\<close>, \<open>null\<close> and the
  empty string are falsy, every other string is truthy.
\<close>

definition truthy :: "string option \<Rightarrow> bool" where
  "truthy v = (case v of None \<Rightarrow> False | Some s \<Rightarrow> s \<noteq> [])"

text \<open>
  What a \<open>catch (error)\<close> clause can receive: an instance of \<open>Error\<close> with its message, or
  any other thrown value. \<open>errorMessage\<close> is the expression
  \<open>error instanceof Error ? error.message : "Unknown error"\<close>.
\<close>

datatype thrown = Error string | NotAnError

definition errorMessage :: "thrown \<Rightarrow> string" where
  "errorMessage e = (case e of Error m \<Rightarrow> m | NotAnError \<Rightarrow> ''Unknown error'')"

text \<open>
  How a handler can fail: with a \<open>ConvexError\<close> it throws itself, or with a value thrown by
  the push notification component that the handler does not catch.
\<close>

datatype failure = ConvexError string | Uncaught thrown

subsection \<open>The external push notification component\<close>

text \<open>
  \<open>@convex-dev/expo-push-notifications\<close> is not part of the repository. It is a parameter of
  the model: a record of the four methods the handlers call, each an arbitrary function of
  the component's own store \<open>'w\<close>. A send returns an id or \<open>null\<close>, or throws; the notification
  payload and \<open>allowUnregisteredTokens: true\<close> are fixed by the handler's arguments and the
  clock, so the dependence of the component on them is covered by the component being
  arbitrary. \<open>recordToken\<close> and \<open>removeToken\<close> return \<open>None\<close> when they return normally and
  the thrown value otherwise; \<open>getStatusForUser\<close> is a query and leaves the store alone.
\<close>

datatype send_result = Returns "string option" | Throws thrown

record push_status =
  hasToken :: bool
  paused :: bool

record 'w component =
  sendPushNotification :: "'w \<Rightarrow> doc_id \<Rightarrow> send_result \<times> 'w"
  recordToken :: "'w \<Rightarrow> doc_id \<Rightarrow> string \<Rightarrow> thrown option \<times> 'w"
  removeToken :: "'w \<Rightarrow> doc_id \<Rightarrow> thrown option \<times> 'w"
  getStatusForUser :: "'w \<Rightarrow> doc_id \<Rightarrow> thrown + push_status"

text \<open>
  The results of the sends made for a list of recipients, one after the other, each on the
  store the previous one left: the behaviour of the component along one broadcast.
\<close>

fun deliveries :: "'w component \<Rightarrow> 'w \<Rightarrow> doc_id list \<Rightarrow> send_result list" where
  "deliveries c w [] = []"
| "deliveries c w (i # rest) =
     (case sendPushNotification c w i of (r, w') \<Rightarrow> r # deliveries c w' rest)"

fun delivered :: "send_result \<Rightarrow> bool" where
  "delivered (Returns nid) = truthy nid"
| "delivered (Throws e) = False"

fun threw :: "send_result \<Rightarrow> bool" where
  "threw (Returns nid) = False"
| "threw (Throws e) = True"

subsection \<open>The database and the handler context\<close>

text \<open>
  A table is the list of its rows in creation order, which is the order of \<open>collect()\<close> and,
  among rows with the same indexed value, of \<open>first()\<close>. \<open>ctx.db.get\<close> returns the row with
  the id, or \<open>null\<close>; \<open>ctx.db.patch\<close> rewrites the row with the id.
\<close>

definition db_get :: "('r \<Rightarrow> doc_id) \<Rightarrow> doc_id \<Rightarrow> 'r list \<Rightarrow> 'r option" where
  "db_get key i rows = find (\<lambda>r. key r = i) rows"

definition db_patch :: "('r \<Rightarrow> doc_id) \<Rightarrow> doc_id \<Rightarrow> ('r \<Rightarrow> 'r) \<Rightarrow> 'r list \<Rightarrow> 'r list" where
  "db_patch key i f rows = map (\<lambda>r. if key r = i then f r else r) rows"

text \<open>
  The context of a handler: what \<open>getAuthUserId(ctx)\<close> returns, the table of the variant,
  and the store of the component. \<open>attempts\<close> is a ghost field: the ids
  \<open>sendPushNotification\<close> was called with, in order. A mutation is a transaction, so a handler
  that throws leaves table and store as they were; only the ghost field records the send
  that threw.
\<close>

record ('r, 'w) ctx =
  auth :: "doc_id option"
  db :: "'r list"
  push :: 'w
  attempts :: "doc_id list"

text \<open>
  One entry of the \<open>details\<close> array. \<open>recipient\<close> is the field \<open>userId\<close> of the user variant
  and \<open>deviceId\<close> of the device variant; the user variant uses the statuses \<open>success\<close>,
  \<open>failed\<close>, \<open>no_token\<close> and the device variant \<open>success\<close>, \<open>failed\<close>, \<open>inactive\<close>.
\<close>

datatype status = Success | Failed | NoToken | Inactive

record detail =
  recipient :: doc_id
  status :: status
  notificationId :: "string option"
  error :: "string option"

record broadcast =
  success :: nat
  failed :: nat
  total :: nat
  details :: "detail list"

section \<open>The user variant (with auth)\<close>

text \<open>A row of \<open>users\<close>: the fields the handlers read or write.\<close>

record user =
  u_id :: doc_id
  u_pushToken :: "string option"

definition getCurrentUser :: "(user, 'w) ctx \<Rightarrow> user option" where
  "getCurrentUser c =
     (case auth c of
        None \<Rightarrow> None
      | Some userId \<Rightarrow> if \<not> truthy (Some userId) then None else db_get u_id userId (db c))"

definition recordPushToken ::
  "'w component \<Rightarrow> string \<Rightarrow> (user, 'w) ctx \<Rightarrow> (failure + unit) \<times> (user, 'w) ctx" where
  "recordPushToken p token c =
     (case getCurrentUser c of
        None \<Rightarrow> (Inl (ConvexError ''User must be authenticated to record push token''), c)
      | Some usr \<Rightarrow>
          (case recordToken p (push c) (u_id usr) token of
             (Some e, w') \<Rightarrow> (Inl (Uncaught e), c)
           | (None, w') \<Rightarrow>
               (Inr (),
                c\<lparr>db := db_patch u_id (u_id usr) (\<lambda>r. r\<lparr>u_pushToken := Some token\<rparr>) (db c),
                  push := w'\<rparr>)))"

definition removePushToken ::
  "'w component \<Rightarrow> (user, 'w) ctx \<Rightarrow> (failure + unit) \<times> (user, 'w) ctx" where
  "removePushToken p c =
     (case getCurrentUser c of
        None \<Rightarrow> (Inl (ConvexError ''User must be authenticated''), c)
      | Some usr \<Rightarrow>
          (case removeToken p (push c) (u_id usr) of
             (Some e, w') \<Rightarrow> (Inl (Uncaught e), c)
           | (None, w') \<Rightarrow>
               (Inr (),
                c\<lparr>db := db_patch u_id (u_id usr) (\<lambda>r. r\<lparr>u_pushToken := None\<rparr>) (db c),
                  push := w'\<rparr>)))"

definition sendNotificationToUser ::
  "'w component \<Rightarrow> doc_id \<Rightarrow> (user, 'w) ctx \<Rightarrow> (failure + string option) \<times> (user, 'w) ctx" where
  "sendNotificationToUser p recipientId c =
     (case getCurrentUser c of
        None \<Rightarrow> (Inl (ConvexError ''User must be authenticated to send notifications''), c)
      | Some usr \<Rightarrow>
          (case db_get u_id recipientId (db c) of
             None \<Rightarrow> (Inl (ConvexError ''Recipient not found''), c)
           | Some rcp \<Rightarrow>
               (case sendPushNotification p (push c) recipientId of
                  (Throws e, w') \<Rightarrow>
                    (Inl (Uncaught e), c\<lparr>attempts := attempts c @ [recipientId]\<rparr>)
                | (Returns nid, w') \<Rightarrow>
                    (Inr nid,
                     c\<lparr>push := w', attempts := attempts c @ [recipientId]\<rparr>))))"

definition getMyPushStatus :: "'w component \<Rightarrow> (user, 'w) ctx \<Rightarrow> failure + push_status" where
  "getMyPushStatus p c =
     (case getCurrentUser c of
        None \<Rightarrow> Inr \<lparr>hasToken = False, paused = False\<rparr>
      | Some usr \<Rightarrow>
          (case getStatusForUser p (push c) (u_id usr) of
             Inl e \<Rightarrow> Inl (Uncaught e)
           | Inr st \<Rightarrow> Inr st))"

text \<open>
  The send loop of \<open>sendBroadcastNotification\<close> and of \<open>sendSystemBroadcast\<close> (the two loops
  differ in the payload only). The state is \<open>successCount\<close>, \<open>failedCount\<close>, \<open>details\<close>, the
  store of the component and the ghost list of attempts.
\<close>

fun notifyUsers ::
  "'w component \<Rightarrow> user list \<Rightarrow> nat \<times> nat \<times> detail list \<times> 'w \<times> doc_id list
     \<Rightarrow> nat \<times> nat \<times> detail list \<times> 'w \<times> doc_id list" where
  "notifyUsers p [] s = s"
| "notifyUsers p (usr # rest) (successCount, failedCount, ds, w, att) =
     (case sendPushNotification p w (u_id usr) of
        (Returns nid, w') \<Rightarrow>
          if truthy nid
          then notifyUsers p rest
                 (successCount + 1, failedCount,
                  ds @ [\<lparr>recipient = u_id usr, status = Success, notificationId = nid,
                          error = None\<rparr>],
                  w', att @ [u_id usr])
          else notifyUsers p rest
                 (successCount, failedCount,
                  ds @ [\<lparr>recipient = u_id usr, status = NoToken, notificationId = None,
                          error = None\<rparr>],
                  w', att @ [u_id usr])
      | (Throws e, w') \<Rightarrow>
          notifyUsers p rest
            (successCount, failedCount + 1,
             ds @ [\<lparr>recipient = u_id usr, status = Failed, notificationId = None,
                     error = Some (errorMessage e)\<rparr>],
             w', att @ [u_id usr]))"

text \<open>The second loop: users without tokens are reported without a send.\<close>

definition withoutToken :: "user \<Rightarrow> detail" where
  "withoutToken usr =
     \<lparr>recipient = u_id usr, status = NoToken, notificationId = None, error = None\<rparr>"

text \<open>
  The two filters of \<open>sendBroadcastNotification\<close>. \<open>excludeCurrentUser\<close> is the optional
  argument, \<open>currentUser\<close> the user found (or \<open>null\<close>).
\<close>

definition excludedUser :: "bool option \<Rightarrow> user option \<Rightarrow> user \<Rightarrow> bool" where
  "excludedUser excludeCurrentUser currentUser usr =
     (excludeCurrentUser = Some True \<and>
      (case currentUser of None \<Rightarrow> False | Some cu \<Rightarrow> u_id usr = u_id cu))"

definition usersWithTokens :: "bool option \<Rightarrow> user option \<Rightarrow> user list \<Rightarrow> user list" where
  "usersWithTokens excludeCurrentUser currentUser allUsers =
     filter (\<lambda>usr. if excludedUser excludeCurrentUser currentUser usr then False
                   else truthy (u_pushToken usr)) allUsers"

definition usersWithoutTokens :: "bool option \<Rightarrow> user option \<Rightarrow> user list \<Rightarrow> user list" where
  "usersWithoutTokens excludeCurrentUser currentUser allUsers =
     filter (\<lambda>usr. if excludedUser excludeCurrentUser currentUser usr then False
                   else \<not> truthy (u_pushToken usr)) allUsers"

record auth_broadcast = broadcast +
  senderId :: "doc_id option"

definition sendBroadcastNotification_users ::
  "'w component \<Rightarrow> bool option \<Rightarrow> bool option \<Rightarrow> (user, 'w) ctx
     \<Rightarrow> (failure + auth_broadcast) \<times> (user, 'w) ctx" where
  "sendBroadcastNotification_users p excludeCurrentUser requireAuthArg c =
     (let requireAuth = (requireAuthArg \<noteq> Some False);
          currentUser = getCurrentUser c
      in if requireAuth \<and> currentUser = None
         then (Inl (ConvexError ''User must be authenticated to send broadcast notifications''), c)
         else
           (let allUsers = db c;
                eligible = usersWithTokens excludeCurrentUser currentUser allUsers
            in case notifyUsers p eligible (0, 0, [], push c, attempts c) of
                 (successCount, failedCount, ds, w, att) \<Rightarrow>
                   (Inr \<lparr>success = successCount, failed = failedCount,
                         total = length eligible,
                         details = ds @ map withoutToken
                                          (usersWithoutTokens excludeCurrentUser currentUser allUsers),
                         senderId = map_option u_id currentUser\<rparr>,
                    c\<lparr>push := w, attempts := att\<rparr>)))"

text \<open>
  The result of \<open>sendSystemBroadcast\<close>; its fields \<open>usersWithTokens\<close> and
  \<open>usersWithoutTokens\<close> are numbers and carry the suffix \<open>Count\<close> here.
\<close>

record system_broadcast = broadcast +
  totalUsers :: nat
  usersWithTokensCount :: nat
  usersWithoutTokensCount :: nat

definition sendSystemBroadcast ::
  "'w component \<Rightarrow> (user, 'w) ctx \<Rightarrow> (failure + system_broadcast) \<times> (user, 'w) ctx" where
  "sendSystemBroadcast p c =
     (let allUsers = db c;
          withTokens = filter (\<lambda>usr. truthy (u_pushToken usr)) allUsers;
          withoutTokens = filter (\<lambda>usr. \<not> truthy (u_pushToken usr)) allUsers
      in case notifyUsers p withTokens (0, 0, [], push c, attempts c) of
           (successCount, failedCount, ds, w, att) \<Rightarrow>
             (Inr \<lparr>success = successCount, failed = failedCount,
                   total = length withTokens,
                   details = ds @ map withoutToken withoutTokens,
                   totalUsers = length allUsers,
                   usersWithTokensCount = length withTokens,
                   usersWithoutTokensCount = length withoutTokens\<rparr>,
              c\<lparr>push := w, attempts := att\<rparr>))"

section \<open>The device variant (without auth)\<close>

text \<open>
  A row of \<open>devices\<close>, as the schema declares it. \<open>d_id\<close> is the document id \<open>_id\<close>,
  \<open>deviceId\<close> the optional hardware identifier the client reports; \<open>lastSeen\<close> is a
  timestamp of \<open>Date.now()\<close>.
\<close>

record device =
  d_id :: doc_id
  d_pushToken :: string
  deviceId :: "string option"
  platform :: "string option"
  appVersion :: "string option"
  lastSeen :: int
  isActive :: "bool option"

text \<open>
  \<open>registerDevice\<close>. \<open>now\<close> is the value of \<open>Date.now()\<close> and \<open>newId\<close> the id
  \<open>ctx.db.insert\<close> gives the new row, both chosen by the environment. The lookup is
  \<open>withIndex("pushToken", q => q.eq("pushToken", args.pushToken)).first()\<close>.
\<close>

definition registerDevice ::
  "'w component \<Rightarrow> string \<Rightarrow> string option \<Rightarrow> string option \<Rightarrow> string option
     \<Rightarrow> int \<Rightarrow> doc_id \<Rightarrow> (device, 'w) ctx \<Rightarrow> (failure + doc_id) \<times> (device, 'w) ctx" where
  "registerDevice p pushTokenArg deviceIdArg platformArg appVersionArg now newId c =
     (case find (\<lambda>d. d_pushToken d = pushTokenArg) (db c) of
        Some existingDevice \<Rightarrow>
          (Inr (d_id existingDevice),
           c\<lparr>db := db_patch d_id (d_id existingDevice)
                      (\<lambda>d. d\<lparr>lastSeen := now, isActive := Some True, platform := platformArg,
                              appVersion := appVersionArg, deviceId := deviceIdArg\<rparr>)
                      (db c)\<rparr>)
      | None \<Rightarrow>
          (case recordToken p (push c) newId pushTokenArg of
             (Some e, w') \<Rightarrow> (Inl (Uncaught e), c)
           | (None, w') \<Rightarrow>
               (Inr newId,
                c\<lparr>db := db c @ [\<lparr>d_id = newId, d_pushToken = pushTokenArg,
                                   deviceId = deviceIdArg, platform = platformArg,
                                   appVersion = appVersionArg, lastSeen = now,
                                   isActive = Some True\<rparr>],
                  push := w'\<rparr>)))"

definition removeDeviceToken ::
  "'w component \<Rightarrow> doc_id \<Rightarrow> (device, 'w) ctx \<Rightarrow> (failure + unit) \<times> (device, 'w) ctx" where
  "removeDeviceToken p deviceIdArg c =
     (case db_get d_id deviceIdArg (db c) of
        None \<Rightarrow> (Inl (ConvexError ''Device not found''), c)
      | Some dev \<Rightarrow>
          (case removeToken p (push c) deviceIdArg of
             (Some e, w') \<Rightarrow> (Inl (Uncaught e), c)
           | (None, w') \<Rightarrow>
               (Inr (),
                c\<lparr>db := db_patch d_id deviceIdArg (\<lambda>d. d\<lparr>isActive := Some False\<rparr>) (db c),
                  push := w'\<rparr>)))"

text \<open>\<open>!device.isActive\<close> holds when the field is \<open>false\<close> and when it is absent.\<close>

definition sendNotificationToDevice ::
  "'w component \<Rightarrow> doc_id \<Rightarrow> int \<Rightarrow> (device, 'w) ctx
     \<Rightarrow> (failure + string option) \<times> (device, 'w) ctx" where
  "sendNotificationToDevice p deviceIdArg now c =
     (case db_get d_id deviceIdArg (db c) of
        None \<Rightarrow> (Inl (ConvexError ''Device not found''), c)
      | Some dev \<Rightarrow>
          if isActive dev \<noteq> Some True
          then (Inl (ConvexError ''Device is not active''), c)
          else
            (case sendPushNotification p (push c) deviceIdArg of
               (Throws e, w') \<Rightarrow>
                 (Inl (Uncaught e), c\<lparr>attempts := attempts c @ [deviceIdArg]\<rparr>)
             | (Returns nid, w') \<Rightarrow>
                 (Inr nid,
                  c\<lparr>db := db_patch d_id deviceIdArg (\<lambda>d. d\<lparr>lastSeen := now\<rparr>) (db c),
                    push := w', attempts := attempts c @ [deviceIdArg]\<rparr>)))"

record device_status = push_status +
  statusIsActive :: bool

text \<open>
  \<open>getDevicePushStatus\<close>; \<open>statusIsActive\<close> is the field \<open>isActive\<close> of the returned
  object, \<open>device.isActive ?? true\<close> for a device that exists.
\<close>

definition getDevicePushStatus ::
  "'w component \<Rightarrow> doc_id \<Rightarrow> (device, 'w) ctx \<Rightarrow> failure + device_status" where
  "getDevicePushStatus p deviceIdArg c =
     (case db_get d_id deviceIdArg (db c) of
        None \<Rightarrow> Inr \<lparr>hasToken = False, paused = False, statusIsActive = False\<rparr>
      | Some dev \<Rightarrow>
          (case getStatusForUser p (push c) deviceIdArg of
             Inl e \<Rightarrow> Inl (Uncaught e)
           | Inr st \<Rightarrow>
               Inr \<lparr>hasToken = hasToken st, paused = paused st,
                     statusIsActive = (case isActive dev of None \<Rightarrow> True | Some b \<Rightarrow> b)\<rparr>))"

text \<open>The send loop of the device variant's \<open>sendBroadcastNotification\<close>.\<close>

fun notifyDevices ::
  "'w component \<Rightarrow> device list \<Rightarrow> nat \<times> nat \<times> detail list \<times> 'w \<times> doc_id list
     \<Rightarrow> nat \<times> nat \<times> detail list \<times> 'w \<times> doc_id list" where
  "notifyDevices p [] s = s"
| "notifyDevices p (dev # rest) (successCount, failedCount, ds, w, att) =
     (case sendPushNotification p w (d_id dev) of
        (Returns nid, w') \<Rightarrow>
          if truthy nid
          then notifyDevices p rest
                 (successCount + 1, failedCount,
                  ds @ [\<lparr>recipient = d_id dev, status = Success, notificationId = nid,
                          error = None\<rparr>],
                  w', att @ [d_id dev])
          else notifyDevices p rest
                 (successCount, failedCount,
                  ds @ [\<lparr>recipient = d_id dev, status = Failed, notificationId = None,
                          error = Some ''No notification ID returned''\<rparr>],
                  w', att @ [d_id dev])
      | (Throws e, w') \<Rightarrow>
          notifyDevices p rest
            (successCount, failedCount + 1,
             ds @ [\<lparr>recipient = d_id dev, status = Failed, notificationId = None,
                     error = Some (errorMessage e)\<rparr>],
             w', att @ [d_id dev]))"

definition inactiveEntry :: "device \<Rightarrow> detail" where
  "inactiveEntry dev =
     \<lparr>recipient = d_id dev, status = Inactive, notificationId = None, error = None\<rparr>"

text \<open>
  The two filters; \<open>args.excludeDeviceId && device._id === args.excludeDeviceId\<close> needs a
  truthy \<open>excludeDeviceId\<close>.
\<close>

definition excludedDevice :: "doc_id option \<Rightarrow> device \<Rightarrow> bool" where
  "excludedDevice excludeDeviceId dev =
     (truthy excludeDeviceId \<and> Some (d_id dev) = excludeDeviceId)"

definition activeDevices :: "doc_id option \<Rightarrow> device list \<Rightarrow> device list" where
  "activeDevices excludeDeviceId allDevices =
     filter (\<lambda>dev. if excludedDevice excludeDeviceId dev then False
                   else isActive dev \<noteq> Some False) allDevices"

definition inactiveDevices :: "doc_id option \<Rightarrow> device list \<Rightarrow> device list" where
  "inactiveDevices excludeDeviceId allDevices =
     filter (\<lambda>dev. if excludedDevice excludeDeviceId dev then False
                   else isActive dev = Some False) allDevices"

definition sendBroadcastNotification_devices ::
  "'w component \<Rightarrow> doc_id option \<Rightarrow> (device, 'w) ctx
     \<Rightarrow> (failure + broadcast) \<times> (device, 'w) ctx" where
  "sendBroadcastNotification_devices p excludeDeviceId c =
     (let allDevices = db c;
          eligible = activeDevices excludeDeviceId allDevices
      in case notifyDevices p eligible (0, 0, [], push c, attempts c) of
           (successCount, failedCount, ds, w, att) \<Rightarrow>
             (Inr \<lparr>success = successCount, failed = failedCount,
                   total = length eligible,
                   details = ds @ map inactiveEntry (inactiveDevices excludeDeviceId allDevices)\<rparr>,
              c\<lparr>push := w, attempts := att\<rparr>))"

section \<open>Notions used in the statements\<close>

text \<open>
  The entry the send loop of a variant pushes for a recipient, as a function of what the
  send did: the three branches of the loop body.
\<close>

fun userEntry :: "doc_id \<Rightarrow> send_result \<Rightarrow> detail" where
  "userEntry i (Returns nid) =
     (if truthy nid
      then \<lparr>recipient = i, status = Success, notificationId = nid, error = None\<rparr>
      else \<lparr>recipient = i, status = NoToken, notificationId = None, error = None\<rparr>)"
| "userEntry i (Throws e) =
     \<lparr>recipient = i, status = Failed, notificationId = None, error = Some (errorMessage e)\<rparr>"

fun deviceEntry :: "doc_id \<Rightarrow> send_result \<Rightarrow> detail" where
  "deviceEntry i (Returns nid) =
     (if truthy nid
      then \<lparr>recipient = i, status = Success, notificationId = nid, error = None\<rparr>
      else \<lparr>recipient = i, status = Failed, notificationId = None,
             error = Some ''No notification ID returned''\<rparr>)"
| "deviceEntry i (Throws e) =
     \<lparr>recipient = i, status = Failed, notificationId = None, error = Some (errorMessage e)\<rparr>"

text \<open>
  The results of the sends of one broadcast: the component run on the eligible recipients
  of the call, in their order, from the store the call starts with.
\<close>

definition usersRun :: "'w component \<Rightarrow> bool option \<Rightarrow> (user, 'w) ctx \<Rightarrow> send_result list" where
  "usersRun p excludeCurrentUser c =
     deliveries p (push c) (map u_id (usersWithTokens excludeCurrentUser (getCurrentUser c) (db c)))"

definition systemRun :: "'w component \<Rightarrow> (user, 'w) ctx \<Rightarrow> send_result list" where
  "systemRun p c =
     deliveries p (push c) (map u_id (filter (\<lambda>usr. truthy (u_pushToken usr)) (db c)))"

definition devicesRun :: "'w component \<Rightarrow> doc_id option \<Rightarrow> (device, 'w) ctx \<Rightarrow> send_result list" where
  "devicesRun p excludeDeviceId c =
     deliveries p (push c) (map d_id (activeDevices excludeDeviceId (db c)))"

section \<open>Example data\<close>

text \<open>
  A component that plays a script: each send takes the next result of the list it keeps as
  its store, and returns \<open>null\<close> once the list is used up. Registering and removing a token
  return normally.
\<close>

definition scripted :: "send_result list component" where
  "scripted =
     \<lparr>sendPushNotification =
        (\<lambda>w i. case w of [] \<Rightarrow> (Returns None, []) | r # rest \<Rightarrow> (r, rest)),
      recordToken = (\<lambda>w i t. (None, w)),
      removeToken = (\<lambda>w i. (None, w)),
      getStatusForUser = (\<lambda>w i. Inr \<lparr>hasToken = True, paused = False\<rparr>)\<rparr>"

definition alice :: user where
  "alice = \<lparr>u_id = ''alice'', u_pushToken = Some ''tok-A''\<rparr>"

definition bob :: user where
  "bob = \<lparr>u_id = ''bob'', u_pushToken = Some ''tok-B''\<rparr>"

definition carol :: user where
  "carol = \<lparr>u_id = ''carol'', u_pushToken = None\<rparr>"

definition dave :: user where
  "dave = \<lparr>u_id = ''dave'', u_pushToken = Some ''tok-D''\<rparr>"

definition usersCtx :: "doc_id option \<Rightarrow> send_result list \<Rightarrow> (user, send_result list) ctx" where
  "usersCtx caller script =
     \<lparr>auth = caller, db = [alice, bob, carol, dave], push = script, attempts = []\<rparr>"

definition phone :: device where
  "phone = \<lparr>d_id = ''d1'', d_pushToken = ''tok-1'', deviceId = Some ''hw-1'',
             platform = Some ''ios'', appVersion = None, lastSeen = 100,
             isActive = Some True\<rparr>"

definition tablet :: device where
  "tablet = \<lparr>d_id = ''d2'', d_pushToken = ''tok-2'', deviceId = None,
              platform = Some ''android'', appVersion = None, lastSeen = 200,
              isActive = None\<rparr>"

definition retired :: device where
  "retired = \<lparr>d_id = ''d3'', d_pushToken = ''tok-3'', deviceId = None, platform = None,
               appVersion = None, lastSeen = 50, isActive = Some False\<rparr>"

definition watch :: device where
  "watch = \<lparr>d_id = ''d4'', d_pushToken = ''tok-4'', deviceId = None, platform = None,
             appVersion = Some ''1.0'', lastSeen = 300, isActive = Some True\<rparr>"

definition devicesCtx :: "send_result list \<Rightarrow> (device, send_result list) ctx" where
  "devicesCtx script =
     \<lparr>auth = None, db = [phone, tablet, retired, watch], push = script, attempts = []\<rparr>"

text \<open>
  Three broadcasts in which one send throws and the sends after it go on. Alice broadcasts
  to the others: Bob's send throws, Dave's succeeds. A system broadcast: Alice's send
  succeeds, Bob's throws, Dave's succeeds. A device broadcast: the phone's send succeeds,
  the tablet's throws, the watch's succeeds. The outcomes are what the handlers return.
\<close>

definition failsOnce :: "send_result list" where
  "failsOnce = [Returns (Some ''n1''), Throws (Error ''boom''), Returns (Some ''n3'')]"

definition usersOutcome :: auth_broadcast where
  "usersOutcome =
     \<lparr>success = 1, failed = 1, total = 2,
      details = [\<lparr>recipient = ''bob'', status = Failed, notificationId = None,
                   error = Some ''boom''\<rparr>,
                 \<lparr>recipient = ''dave'', status = Success, notificationId = Some ''n3'',
                   error = None\<rparr>,
                 \<lparr>recipient = ''carol'', status = NoToken, notificationId = None,
                   error = None\<rparr>],
      senderId = Some ''alice''\<rparr>"

definition systemOutcome :: system_broadcast where
  "systemOutcome =
     \<lparr>success = 2, failed = 1, total = 3,
      details = [\<lparr>recipient = ''alice'', status = Success, notificationId = Some ''n1'',
                   error = None\<rparr>,
                 \<lparr>recipient = ''bob'', status = Failed, notificationId = None,
                   error = Some ''boom''\<rparr>,
                 \<lparr>recipient = ''dave'', status = Success, notificationId = Some ''n3'',
                   error = None\<rparr>,
                 \<lparr>recipient = ''carol'', status = NoToken, notificationId = None,
                   error = None\<rparr>],
      totalUsers = 4, usersWithTokensCount = 3, usersWithoutTokensCount = 1\<rparr>"

definition devicesOutcome :: broadcast where
  "devicesOutcome =
     \<lparr>success = 2, failed = 1, total = 3,
      details = [\<lparr>recipient = ''d1'', status = Success, notificationId = Some ''n1'',
                   error = None\<rparr>,
                 \<lparr>recipient = ''d2'', status = Failed, notificationId = None,
                   error = Some ''boom''\<rparr>,
                 \<lparr>recipient = ''d4'', status = Success, notificationId = Some ''n3'',
                   error = None\<rparr>,
                 \<lparr>recipient = ''d3'', status = Inactive, notificationId = None,
                   error = None\<rparr>]\<rparr>"

text \<open>A device broadcast that excludes the phone: the tablet's send throws.\<close>

definition exclusionOutcome :: broadcast where
  "exclusionOutcome =
     \<lparr>success = 1, failed = 1, total = 2,
      details = [\<lparr>recipient = ''d2'', status = Failed, notificationId = None,
                   error = Some ''boom''\<rparr>,
                 \<lparr>recipient = ''d4'', status = Success, notificationId = Some ''n3'',
                   error = None\<rparr>,
                 \<lparr>recipient = ''d3'', status = Inactive, notificationId = None,
                   error = None\<rparr>]\<rparr>"

text \<open>
  A broadcast with \<open>requireAuth: false\<close> and \<open>excludeCurrentUser: true\<close> by a caller who is
  not signed in.
\<close>

definition anonymousOutcome :: auth_broadcast where
  "anonymousOutcome =
     \<lparr>success = 2, failed = 1, total = 3,
      details = [\<lparr>recipient = ''alice'', status = Success, notificationId = Some ''n1'',
                   error = None\<rparr>,
                 \<lparr>recipient = ''bob'', status = Failed, notificationId = None,
                   error = Some ''boom''\<rparr>,
                 \<lparr>recipient = ''dave'', status = Success, notificationId = Some ''n3'',
                   error = None\<rparr>,
                 \<lparr>recipient = ''carol'', status = NoToken, notificationId = None,
                   error = None\<rparr>],
      senderId = None\<rparr>"

text \<open>
  The device table after a new token has been registered, and the user table after Carol
  has recorded a token.
\<close>

definition registeredCtx :: "(device, send_result list) ctx" where
  "registeredCtx =
     \<lparr>auth = None,
      db = [phone, tablet, retired, watch,
            \<lparr>d_id = ''d9'', d_pushToken = ''tok-9'', deviceId = Some ''hw-9'',
             platform = Some ''ios'', appVersion = None, lastSeen = 1000,
             isActive = Some True\<rparr>],
      push = [], attempts = []\<rparr>"

definition recordedCtx :: "(user, send_result list) ctx" where
  "recordedCtx =
     \<lparr>auth = Some ''carol'',
      db = [alice, bob, \<lparr>u_id = ''carol'', u_pushToken = Some ''tok-C''\<rparr>, dave],
      push = [], attempts = []\<rparr>"

text \<open>The device table after the token of the phone has been removed.\<close>

definition removedCtx :: "(device, send_result list) ctx" where
  "removedCtx =
     \<lparr>auth = None, db = [phone\<lparr>isActive := Some False\<rparr>, tablet, retired, watch],
      push = [], attempts = []\<rparr>"

text \<open>The system broadcast when the component returns no id at all.\<close>

definition silentOutcome :: system_broadcast where
  "silentOutcome =
     \<lparr>success = 0, failed = 0, total = 3,
      details = [\<lparr>recipient = ''alice'', status = NoToken, notificationId = None,
                   error = None\<rparr>,
                 \<lparr>recipient = ''bob'', status = NoToken, notificationId = None,
                   error = None\<rparr>,
                 \<lparr>recipient = ''dave'', status = NoToken, notificationId = None,
                   error = None\<rparr>,
                 \<lparr>recipient = ''carol'', status = NoToken, notificationId = None,
                   error = None\<rparr>],
      totalUsers = 4, usersWithTokensCount = 3, usersWithoutTokensCount = 1\<rparr>"

lemmas example_defs =
  scripted_def alice_def bob_def carol_def dave_def usersCtx_def phone_def tablet_def
  retired_def watch_def devicesCtx_def failsOnce_def truthy_def withoutToken_def
  inactiveEntry_def errorMessage_def

lemmas handler_defs =
  sendBroadcastNotification_users_def sendSystemBroadcast_def
  sendBroadcastNotification_devices_def getCurrentUser_def db_get_def excludedUser_def
  usersWithTokens_def usersWithoutTokens_def excludedDevice_def activeDevices_def
  inactiveDevices_def

section \<open>The send loops and the results of the broadcasts\<close>

lemma length_deliveries: "length (deliveries p w ids) = length ids"
  by (induction ids arbitrary: w) (auto split: prod.splits)

lemma notifyUsers_counts:
  "notifyUsers p us (sc, fc, ds, w, att) = (sc', fc', ds', w', att') \<Longrightarrow>
     sc' = sc + length (filter delivered (deliveries p w (map u_id us))) \<and>
     fc' = fc + length (filter threw (deliveries p w (map u_id us))) \<and>
     ds' = ds @ map2 userEntry (map u_id us) (deliveries p w (map u_id us)) \<and>
     att' = att @ map u_id us"
proof (induction us arbitrary: sc fc ds w att)
  case Nil
  then show ?case by simp
next
  case (Cons u us)
  show ?case
  proof (cases "sendPushNotification p w (u_id u)")
    case (Pair r w1)
    show ?thesis
    proof (cases r)
      case (Returns nid)
      with Pair Cons.prems Cons.IH show ?thesis
        by (cases "truthy nid") (simp_all, fastforce+)
    next
      case (Throws e)
      with Pair Cons.prems Cons.IH show ?thesis
        by simp fastforce
    qed
  qed
qed

lemma notifyDevices_counts:
  "notifyDevices p us (sc, fc, ds, w, att) = (sc', fc', ds', w', att') \<Longrightarrow>
     sc' = sc + length (filter delivered (deliveries p w (map d_id us))) \<and>
     fc' = fc + length (filter threw (deliveries p w (map d_id us))) \<and>
     ds' = ds @ map2 deviceEntry (map d_id us) (deliveries p w (map d_id us)) \<and>
     att' = att @ map d_id us"
proof (induction us arbitrary: sc fc ds w att)
  case Nil
  then show ?case by simp
next
  case (Cons u us)
  show ?case
  proof (cases "sendPushNotification p w (d_id u)")
    case (Pair r w1)
    show ?thesis
    proof (cases r)
      case (Returns nid)
      with Pair Cons.prems Cons.IH show ?thesis
        by (cases "truthy nid") (simp_all, fastforce+)
    next
      case (Throws e)
      with Pair Cons.prems Cons.IH show ?thesis
        by simp fastforce
    qed
  qed
qed


lemma outcome_split:
  "length (filter delivered rs) + length (filter threw rs)
     + length (filter (\<lambda>x. \<not> delivered x \<and> \<not> threw x) rs) = length rs"
proof (induction rs)
  case Nil
  show ?case by simp
next
  case (Cons x rs)
  then show ?case by (cases x) auto
qed

lemma all_outcomes_counted:
  "list_all (\<lambda>x. delivered x \<or> threw x) rs \<Longrightarrow>
     length (filter delivered rs) + length (filter threw rs) = length rs"
proof (induction rs)
  case Nil
  show ?case by simp
next
  case (Cons x rs)
  then show ?case by (cases x) auto
qed

lemma noToken_entries:
  "length ids = length rs \<Longrightarrow>
     length (filter (\<lambda>d. status d = NoToken) (map2 userEntry ids rs))
       = length (filter (\<lambda>x. \<not> delivered x \<and> \<not> threw x) rs)"
proof (induction ids rs rule: list_induct2)
  case Nil
  show ?case by simp
next
  case (Cons i ids x rs)
  then show ?case by (cases x) auto
qed

lemma users_broadcast_result:
  assumes "sendBroadcastNotification_users p ex ra c = (Inr r, c')"
  shows "success r = length (filter delivered (deliveries p (push c)
            (map u_id (usersWithTokens ex (getCurrentUser c) (db c)))))"
    and "failed r = length (filter threw (deliveries p (push c)
            (map u_id (usersWithTokens ex (getCurrentUser c) (db c)))))"
    and "total r = length (usersWithTokens ex (getCurrentUser c) (db c))"
    and "details r =
           map2 userEntry (map u_id (usersWithTokens ex (getCurrentUser c) (db c)))
             (deliveries p (push c) (map u_id (usersWithTokens ex (getCurrentUser c) (db c))))
           @ map withoutToken (usersWithoutTokens ex (getCurrentUser c) (db c))"
    and "attempts c' = attempts c @ map u_id (usersWithTokens ex (getCurrentUser c) (db c))"
    and "senderId r = map_option u_id (getCurrentUser c)"
    and "db c' = db c"
proof -
  obtain sc fc ds w att where run:
    "notifyUsers p (usersWithTokens ex (getCurrentUser c) (db c)) (0, 0, [], push c, attempts c)
       = (sc, fc, ds, w, att)"
    by (metis prod_cases5)
  note facts = notifyUsers_counts [OF run]
  from assms run have r: "r = \<lparr>success = sc, failed = fc,
       total = length (usersWithTokens ex (getCurrentUser c) (db c)),
       details = ds @ map withoutToken (usersWithoutTokens ex (getCurrentUser c) (db c)),
       senderId = map_option u_id (getCurrentUser c)\<rparr>"
    and c': "c' = c\<lparr>push := w, attempts := att\<rparr>"
    by (auto simp: sendBroadcastNotification_users_def Let_def split: if_splits)
  show "success r = length (filter delivered (deliveries p (push c)
            (map u_id (usersWithTokens ex (getCurrentUser c) (db c)))))"
    using facts r by simp
  show "failed r = length (filter threw (deliveries p (push c)
            (map u_id (usersWithTokens ex (getCurrentUser c) (db c)))))"
    using facts r by simp
  show "total r = length (usersWithTokens ex (getCurrentUser c) (db c))"
    using r by simp
  show "details r =
           map2 userEntry (map u_id (usersWithTokens ex (getCurrentUser c) (db c)))
             (deliveries p (push c) (map u_id (usersWithTokens ex (getCurrentUser c) (db c))))
           @ map withoutToken (usersWithoutTokens ex (getCurrentUser c) (db c))"
    using facts r by simp
  show "attempts c' = attempts c @ map u_id (usersWithTokens ex (getCurrentUser c) (db c))"
    using facts c' by simp
  show "senderId r = map_option u_id (getCurrentUser c)"
    using r by simp
  show "db c' = db c"
    using c' by simp
qed

lemma users_broadcast_returns:
  "ra = Some False \<or> getCurrentUser c \<noteq> None \<Longrightarrow>
     \<exists>r c'. sendBroadcastNotification_users p ex ra c = (Inr r, c')"
  by (auto simp: sendBroadcastNotification_users_def Let_def split: prod.splits)


lemma system_broadcast_result:
  assumes "sendSystemBroadcast p c = (Inr r, c')"
  shows "success r = length (filter delivered (deliveries p (push c)
            (map u_id (filter (\<lambda>usr. truthy (u_pushToken usr)) (db c)))))"
    and "failed r = length (filter threw (deliveries p (push c)
            (map u_id (filter (\<lambda>usr. truthy (u_pushToken usr)) (db c)))))"
    and "total r = length (filter (\<lambda>usr. truthy (u_pushToken usr)) (db c))"
    and "details r =
           map2 userEntry (map u_id (filter (\<lambda>usr. truthy (u_pushToken usr)) (db c)))
             (deliveries p (push c) (map u_id (filter (\<lambda>usr. truthy (u_pushToken usr)) (db c))))
           @ map withoutToken (filter (\<lambda>usr. \<not> truthy (u_pushToken usr)) (db c))"
    and "attempts c' = attempts c @ map u_id (filter (\<lambda>usr. truthy (u_pushToken usr)) (db c))"
    and "totalUsers r = length (db c)"
proof -
  obtain sc fc ds w att where run:
    "notifyUsers p (filter (\<lambda>usr. truthy (u_pushToken usr)) (db c)) (0, 0, [], push c, attempts c)
       = (sc, fc, ds, w, att)"
    by (metis prod_cases5)
  note facts = notifyUsers_counts [OF run]
  from assms run have r: "r = \<lparr>success = sc, failed = fc,
       total = length (filter (\<lambda>usr. truthy (u_pushToken usr)) (db c)),
       details = ds @ map withoutToken (filter (\<lambda>usr. \<not> truthy (u_pushToken usr)) (db c)),
       totalUsers = length (db c),
       usersWithTokensCount = length (filter (\<lambda>usr. truthy (u_pushToken usr)) (db c)),
       usersWithoutTokensCount = length (filter (\<lambda>usr. \<not> truthy (u_pushToken usr)) (db c))\<rparr>"
    and c': "c' = c\<lparr>push := w, attempts := att\<rparr>"
    by (auto simp: sendSystemBroadcast_def Let_def)
  show "success r = length (filter delivered (deliveries p (push c)
            (map u_id (filter (\<lambda>usr. truthy (u_pushToken usr)) (db c)))))"
    using facts r by simp
  show "failed r = length (filter threw (deliveries p (push c)
            (map u_id (filter (\<lambda>usr. truthy (u_pushToken usr)) (db c)))))"
    using facts r by simp
  show "total r = length (filter (\<lambda>usr. truthy (u_pushToken usr)) (db c))"
    using r by simp
  show "details r =
           map2 userEntry (map u_id (filter (\<lambda>usr. truthy (u_pushToken usr)) (db c)))
             (deliveries p (push c) (map u_id (filter (\<lambda>usr. truthy (u_pushToken usr)) (db c))))
           @ map withoutToken (filter (\<lambda>usr. \<not> truthy (u_pushToken usr)) (db c))"
    using facts r by simp
  show "attempts c' = attempts c @ map u_id (filter (\<lambda>usr. truthy (u_pushToken usr)) (db c))"
    using facts c' by simp
  show "totalUsers r = length (db c)"
    using r by simp
qed

lemma system_broadcast_returns: "\<exists>r c'. sendSystemBroadcast p c = (Inr r, c')"
  by (auto simp: sendSystemBroadcast_def Let_def split: prod.splits)

lemma devices_broadcast_result:
  assumes "sendBroadcastNotification_devices p ex c = (Inr r, c')"
  shows "success r = length (filter delivered (deliveries p (push c)
            (map d_id (activeDevices ex (db c)))))"
    and "failed r = length (filter threw (deliveries p (push c)
            (map d_id (activeDevices ex (db c)))))"
    and "total r = length (activeDevices ex (db c))"
    and "details r =
           map2 deviceEntry (map d_id (activeDevices ex (db c)))
             (deliveries p (push c) (map d_id (activeDevices ex (db c))))
           @ map inactiveEntry (inactiveDevices ex (db c))"
    and "attempts c' = attempts c @ map d_id (activeDevices ex (db c))"
proof -
  obtain sc fc ds w att where run:
    "notifyDevices p (activeDevices ex (db c)) (0, 0, [], push c, attempts c)
       = (sc, fc, ds, w, att)"
    by (metis prod_cases5)
  note facts = notifyDevices_counts [OF run]
  from assms run have r: "r = \<lparr>success = sc, failed = fc,
       total = length (activeDevices ex (db c)),
       details = ds @ map inactiveEntry (inactiveDevices ex (db c))\<rparr>"
    and c': "c' = c\<lparr>push := w, attempts := att\<rparr>"
    by (auto simp: sendBroadcastNotification_devices_def Let_def)
  show "success r = length (filter delivered (deliveries p (push c)
            (map d_id (activeDevices ex (db c)))))"
    using facts r by simp
  show "failed r = length (filter threw (deliveries p (push c)
            (map d_id (activeDevices ex (db c)))))"
    using facts r by simp
  show "total r = length (activeDevices ex (db c))"
    using r by simp
  show "details r =
           map2 deviceEntry (map d_id (activeDevices ex (db c)))
             (deliveries p (push c) (map d_id (activeDevices ex (db c))))
           @ map inactiveEntry (inactiveDevices ex (db c))"
    using facts r by simp
  show "attempts c' = attempts c @ map d_id (activeDevices ex (db c))"
    using facts c' by simp
qed

lemma devices_broadcast_returns: "\<exists>r c'. sendBroadcastNotification_devices p ex c = (Inr r, c')"
  by (auto simp: sendBroadcastNotification_devices_def Let_def split: prod.splits)

lemma counted_le: "length (filter delivered rs) + length (filter threw rs) \<le> length rs"
  using outcome_split [of rs] by linarith

lemma noToken_among_attempted:
  "length ids = length rs \<Longrightarrow>
     length (filter (\<lambda>d. status d = NoToken) (take (length ids) (map2 userEntry ids rs @ others)))
       = length (filter (\<lambda>x. \<not> delivered x \<and> \<not> threw x) rs)"
  using noToken_entries [of ids rs] by simp

subsection \<open>The example broadcasts, evaluated\<close>

lemma users_scenario:
  "sendBroadcastNotification_users scripted (Some True) None
       (usersCtx (Some ''alice'') (tl failsOnce))
     = (Inr usersOutcome, (usersCtx (Some ''alice'') [])\<lparr>attempts := [''bob'', ''dave'']\<rparr>)"
  by (simp add: handler_defs example_defs usersOutcome_def)

lemma system_scenario:
  "sendSystemBroadcast scripted (usersCtx None failsOnce)
     = (Inr systemOutcome, (usersCtx None [])\<lparr>attempts := [''alice'', ''bob'', ''dave'']\<rparr>)"
  by (simp add: handler_defs example_defs systemOutcome_def)

lemma devices_scenario:
  "sendBroadcastNotification_devices scripted None (devicesCtx failsOnce)
     = (Inr devicesOutcome, (devicesCtx [])\<lparr>attempts := [''d1'', ''d2'', ''d4'']\<rparr>)"
  by (simp add: handler_defs example_defs devicesOutcome_def)

lemma exclusion_scenario:
  "sendBroadcastNotification_devices scripted (Some ''d1'') (devicesCtx (tl failsOnce))
     = (Inr exclusionOutcome, (devicesCtx [])\<lparr>attempts := [''d2'', ''d4'']\<rparr>)"
  by (simp add: handler_defs example_defs exclusionOutcome_def)

lemma anonymous_scenario:
  "sendBroadcastNotification_users scripted (Some True) (Some False) (usersCtx None failsOnce)
     = (Inr anonymousOutcome,
        (usersCtx None [])\<lparr>attempts := [''alice'', ''bob'', ''dave'']\<rparr>)"
  by (simp add: handler_defs example_defs anonymousOutcome_def)

lemma silent_scenario:
  "sendSystemBroadcast scripted (usersCtx None [])
     = (Inr silentOutcome, (usersCtx None [])\<lparr>attempts := [''alice'', ''bob'', ''dave'']\<rparr>)"
  by (simp add: handler_defs example_defs silentOutcome_def)

section \<open>The claims\<close>

subsection \<open>Counters of a broadcast\<close>

text \<open>
  C1 (as amended). For each of the three broadcasts that returns, \<open>total\<close> is the number of
  eligible recipients (not excluded, and with a token or not marked inactive). In the user
  variant a send that returns no id is reported \<open>no_token\<close> and counted neither as success
  nor as failure, so \<open>success + failed\<close> plus the number of \<open>no_token\<close> entries among the
  attempted recipients is \<open>total\<close>. In all three, \<open>success + failed = total\<close> when every send
  of the broadcast returned an id or threw.
\<close>

theorem broadcast_counters:
  "(sendBroadcastNotification_users p ex ra c = (Inr r, c') \<longrightarrow>
      total r = length (usersWithTokens ex (getCurrentUser c) (db c)) \<and>
      success r + failed r
        + length (filter (\<lambda>d. status d = NoToken) (take (total r) (details r))) = total r \<and>
      (list_all (\<lambda>x. delivered x \<or> threw x)
         (deliveries p (push c) (map u_id (usersWithTokens ex (getCurrentUser c) (db c))))
       \<longrightarrow> success r + failed r = total r))
   \<and> (sendSystemBroadcast q cs = (Inr rs, cs') \<longrightarrow>
      total rs = length (filter (\<lambda>usr. truthy (u_pushToken usr)) (db cs)) \<and>
      success rs + failed rs
        + length (filter (\<lambda>d. status d = NoToken) (take (total rs) (details rs))) = total rs \<and>
      (list_all (\<lambda>x. delivered x \<or> threw x)
         (deliveries q (push cs) (map u_id (filter (\<lambda>usr. truthy (u_pushToken usr)) (db cs))))
       \<longrightarrow> success rs + failed rs = total rs))
   \<and> (sendBroadcastNotification_devices pd exd cd = (Inr rd, cd') \<longrightarrow>
      total rd = length (activeDevices exd (db cd)) \<and>
      success rd + failed rd \<le> total rd \<and>
      (list_all (\<lambda>x. delivered x \<or> threw x)
         (deliveries pd (push cd) (map d_id (activeDevices exd (db cd))))
       \<longrightarrow> success rd + failed rd = total rd))"
proof (intro conjI impI)
  assume a: "sendBroadcastNotification_users p ex ra c = (Inr r, c')"
  note f = users_broadcast_result [OF a]
  show "total r = length (usersWithTokens ex (getCurrentUser c) (db c))"
    by (rule f(3))
  show "success r + failed r
        + length (filter (\<lambda>d. status d = NoToken) (take (total r) (details r))) = total r"
    using outcome_split [of "deliveries p (push c) (map u_id (usersWithTokens ex (getCurrentUser c) (db c)))"]
      noToken_among_attempted [of "map u_id (usersWithTokens ex (getCurrentUser c) (db c))"
        "deliveries p (push c) (map u_id (usersWithTokens ex (getCurrentUser c) (db c)))"
        "map withoutToken (usersWithoutTokens ex (getCurrentUser c) (db c))"]
    by (simp add: f(1-4) length_deliveries)
  assume "list_all (\<lambda>x. delivered x \<or> threw x)
         (deliveries p (push c) (map u_id (usersWithTokens ex (getCurrentUser c) (db c))))"
  from all_outcomes_counted [OF this] show "success r + failed r = total r"
    by (simp add: f(1-3) length_deliveries)
next
  assume a: "sendSystemBroadcast q cs = (Inr rs, cs')"
  note f = system_broadcast_result [OF a]
  show "total rs = length (filter (\<lambda>usr. truthy (u_pushToken usr)) (db cs))"
    by (rule f(3))
  show "success rs + failed rs
        + length (filter (\<lambda>d. status d = NoToken) (take (total rs) (details rs))) = total rs"
    using outcome_split [of "deliveries q (push cs) (map u_id (filter (\<lambda>usr. truthy (u_pushToken usr)) (db cs)))"]
      noToken_among_attempted [of "map u_id (filter (\<lambda>usr. truthy (u_pushToken usr)) (db cs))"
        "deliveries q (push cs) (map u_id (filter (\<lambda>usr. truthy (u_pushToken usr)) (db cs)))"
        "map withoutToken (filter (\<lambda>usr. \<not> truthy (u_pushToken usr)) (db cs))"]
    by (simp add: f(1-4) length_deliveries)
  assume "list_all (\<lambda>x. delivered x \<or> threw x)
         (deliveries q (push cs) (map u_id (filter (\<lambda>usr. truthy (u_pushToken usr)) (db cs))))"
  from all_outcomes_counted [OF this] show "success rs + failed rs = total rs"
    by (simp add: f(1-3) length_deliveries)
next
  assume a: "sendBroadcastNotification_devices pd exd cd = (Inr rd, cd')"
  note f = devices_broadcast_result [OF a]
  show "total rd = length (activeDevices exd (db cd))"
    by (rule f(3))
  show "success rd + failed rd \<le> total rd"
    using counted_le [of "deliveries pd (push cd) (map d_id (activeDevices exd (db cd)))"]
    by (simp add: f(1-3) length_deliveries)
  assume "list_all (\<lambda>x. delivered x \<or> threw x)
         (deliveries pd (push cd) (map d_id (activeDevices exd (db cd))))"
  from all_outcomes_counted [OF this] show "success rd + failed rd = total rd"
    by (simp add: f(1-3) length_deliveries)
qed


theorem broadcast_counters_witness:
  "sendBroadcastNotification_users scripted (Some True) None
       (usersCtx (Some ''alice'') (tl failsOnce))
     = (Inr usersOutcome, (usersCtx (Some ''alice'') [])\<lparr>attempts := [''bob'', ''dave'']\<rparr>)
   \<and> sendSystemBroadcast scripted (usersCtx None failsOnce)
     = (Inr systemOutcome, (usersCtx None [])\<lparr>attempts := [''alice'', ''bob'', ''dave'']\<rparr>)
   \<and> sendBroadcastNotification_devices scripted None (devicesCtx failsOnce)
     = (Inr devicesOutcome, (devicesCtx [])\<lparr>attempts := [''d1'', ''d2'', ''d4'']\<rparr>)
   \<and> list_all (\<lambda>x. delivered x \<or> threw x)
        (deliveries scripted (tl failsOnce) [''bob'', ''dave''])
   \<and> list_all (\<lambda>x. delivered x \<or> threw x)
        (deliveries scripted failsOnce [''alice'', ''bob'', ''dave''])
   \<and> list_all (\<lambda>x. delivered x \<or> threw x)
        (deliveries scripted failsOnce [''d1'', ''d2'', ''d4''])
   \<and> total usersOutcome = 2 \<and> success usersOutcome + failed usersOutcome = total usersOutcome
   \<and> total systemOutcome = 3
   \<and> success systemOutcome + failed systemOutcome = total systemOutcome
   \<and> total devicesOutcome = 3
   \<and> success devicesOutcome + failed devicesOutcome = total devicesOutcome"
proof -
  note run = users_scenario system_scenario devices_scenario
  have every: "list_all (\<lambda>x. delivered x \<or> threw x)
        (deliveries scripted (tl failsOnce) [''bob'', ''dave''])"
    "list_all (\<lambda>x. delivered x \<or> threw x)
        (deliveries scripted failsOnce [''alice'', ''bob'', ''dave''])"
    "list_all (\<lambda>x. delivered x \<or> threw x)
        (deliveries scripted failsOnce [''d1'', ''d2'', ''d4''])"
    by (simp_all add: example_defs)
  have sel: "usersWithTokens (Some True) (getCurrentUser (usersCtx (Some ''alice'') (tl failsOnce)))
               (db (usersCtx (Some ''alice'') (tl failsOnce))) = [bob, dave]"
    "filter (\<lambda>usr. truthy (u_pushToken usr)) (db (usersCtx None failsOnce)) = [alice, bob, dave]"
    "activeDevices None (db (devicesCtx failsOnce)) = [phone, tablet, watch]"
    by (simp_all add: handler_defs example_defs)
  have ids: "map u_id [bob, dave] = [''bob'', ''dave'']"
    "map u_id [alice, bob, dave] = [''alice'', ''bob'', ''dave'']"
    "map d_id [phone, tablet, watch] = [''d1'', ''d2'', ''d4'']"
    by (simp_all add: example_defs)
  have st: "push (usersCtx (Some ''alice'') (tl failsOnce)) = tl failsOnce"
    "push (usersCtx None failsOnce) = failsOnce" "push (devicesCtx failsOnce) = failsOnce"
    by (simp_all add: usersCtx_def devicesCtx_def)
  note inst = broadcast_counters
    [of scripted "Some True" None "usersCtx (Some ''alice'') (tl failsOnce)" usersOutcome
        "(usersCtx (Some ''alice'') [])\<lparr>attempts := [''bob'', ''dave'']\<rparr>"
        scripted "usersCtx None failsOnce" systemOutcome
        "(usersCtx None [])\<lparr>attempts := [''alice'', ''bob'', ''dave'']\<rparr>"
        scripted None "devicesCtx failsOnce" devicesOutcome
        "(devicesCtx [])\<lparr>attempts := [''d1'', ''d2'', ''d4'']\<rparr>"]
  have u: "success usersOutcome + failed usersOutcome = total usersOutcome"
    using inst [THEN conjunct1] run(1) every(1) by (simp only: sel ids st)
  have s: "success systemOutcome + failed systemOutcome = total systemOutcome"
    using inst [THEN conjunct2, THEN conjunct1] run(2) every(2) by (simp only: sel ids st)
  have d: "success devicesOutcome + failed devicesOutcome = total devicesOutcome"
    using inst [THEN conjunct2, THEN conjunct2] run(3) every(3) by (simp only: sel ids st)
  have t: "total usersOutcome = 2" "total systemOutcome = 3" "total devicesOutcome = 3"
    by (simp_all add: usersOutcome_def systemOutcome_def devicesOutcome_def)
  from run every u s d t show ?thesis
    by (intro conjI)
qed

text \<open>
  The claim as written fails: when the component returns no id for the three users with a
  token, the system broadcast reports no success and no failure for a total of three.
\<close>

theorem broadcast_counters_counterexample:
  "sendSystemBroadcast scripted (usersCtx None [])
     = (Inr silentOutcome, (usersCtx None [])\<lparr>attempts := [''alice'', ''bob'', ''dave'']\<rparr>)
   \<and> success silentOutcome + failed silentOutcome \<noteq> total silentOutcome"
  by (simp add: silent_scenario) (simp add: silentOutcome_def)

subsection \<open>The details of a broadcast\<close>

lemma recipient_userEntry: "recipient (userEntry i x) = i"
  by (cases x) auto

lemma recipient_deviceEntry: "recipient (deviceEntry i x) = i"
  by (cases x) auto

lemma recipients_userEntries:
  "length ids = length rs \<Longrightarrow> map recipient (map2 userEntry ids rs) = ids"
  by (induction ids rs rule: list_induct2) (simp_all add: recipient_userEntry)

lemma recipients_deviceEntries:
  "length ids = length rs \<Longrightarrow> map recipient (map2 deviceEntry ids rs) = ids"
  by (induction ids rs rule: list_induct2) (simp_all add: recipient_deviceEntry)

lemma mset_two_filters:
  "(\<And>x. C x \<longleftrightarrow> A x \<or> B x) \<Longrightarrow> (\<And>x. \<not> (A x \<and> B x)) \<Longrightarrow>
     mset (map f (filter A xs)) + mset (map f (filter B xs)) = mset (map f (filter C xs))"
  by (induction xs) auto

lemma recipients_withoutToken: "map recipient (map withoutToken us) = map u_id us"
  by (induction us) (simp_all add: withoutToken_def)

lemma recipients_inactiveEntry: "map recipient (map inactiveEntry ds) = map d_id ds"
  by (induction ds) (simp_all add: inactiveEntry_def)

lemma users_recipients:
  assumes "sendBroadcastNotification_users p ex ra c = (Inr r, c')"
  shows "map recipient (details r)
           = map u_id (usersWithTokens ex (getCurrentUser c) (db c))
             @ map u_id (usersWithoutTokens ex (getCurrentUser c) (db c))"
proof -
  have "map recipient (map2 userEntry (map u_id (usersWithTokens ex (getCurrentUser c) (db c)))
          (deliveries p (push c) (map u_id (usersWithTokens ex (getCurrentUser c) (db c)))))
        = map u_id (usersWithTokens ex (getCurrentUser c) (db c))"
    by (rule recipients_userEntries) (simp add: length_deliveries)
  then show ?thesis
    unfolding users_broadcast_result(4) [OF assms] map_append recipients_withoutToken
    by (rule arg_cong)
qed

lemma system_recipients:
  assumes "sendSystemBroadcast p c = (Inr r, c')"
  shows "map recipient (details r)
           = map u_id (filter (\<lambda>usr. truthy (u_pushToken usr)) (db c))
             @ map u_id (filter (\<lambda>usr. \<not> truthy (u_pushToken usr)) (db c))"
proof -
  have "map recipient (map2 userEntry (map u_id (filter (\<lambda>usr. truthy (u_pushToken usr)) (db c)))
          (deliveries p (push c) (map u_id (filter (\<lambda>usr. truthy (u_pushToken usr)) (db c)))))
        = map u_id (filter (\<lambda>usr. truthy (u_pushToken usr)) (db c))"
    by (rule recipients_userEntries) (simp add: length_deliveries)
  then show ?thesis
    unfolding system_broadcast_result(4) [OF assms] map_append recipients_withoutToken
    by (rule arg_cong)
qed

lemma devices_recipients:
  assumes "sendBroadcastNotification_devices p ex c = (Inr r, c')"
  shows "map recipient (details r)
           = map d_id (activeDevices ex (db c)) @ map d_id (inactiveDevices ex (db c))"
proof -
  have "map recipient (map2 deviceEntry (map d_id (activeDevices ex (db c)))
          (deliveries p (push c) (map d_id (activeDevices ex (db c)))))
        = map d_id (activeDevices ex (db c))"
    by (rule recipients_deviceEntries) (simp add: length_deliveries)
  then show ?thesis
    unfolding devices_broadcast_result(4) [OF assms] map_append recipients_inactiveEntry
    by (rule arg_cong)
qed

lemma users_recipients_mset:
  assumes "sendBroadcastNotification_users p ex ra c = (Inr r, c')"
  shows "mset (map recipient (details r))
           = mset (map u_id (filter (\<lambda>usr. \<not> excludedUser ex (getCurrentUser c) usr) (db c)))"
  unfolding users_recipients [OF assms] usersWithTokens_def usersWithoutTokens_def mset_append
  by (rule mset_two_filters) auto

lemma system_recipients_mset:
  assumes "sendSystemBroadcast p c = (Inr r, c')"
  shows "mset (map recipient (details r)) = mset (map u_id (db c))"
  using mset_two_filters [of "\<lambda>x. True" "\<lambda>usr. truthy (u_pushToken usr)"
      "\<lambda>usr. \<not> truthy (u_pushToken usr)" u_id "db c"]
  by (simp add: system_recipients [OF assms])

lemma devices_recipients_mset:
  assumes "sendBroadcastNotification_devices p ex c = (Inr r, c')"
  shows "mset (map recipient (details r))
           = mset (map d_id (filter (\<lambda>dev. \<not> excludedDevice ex dev) (db c)))"
  unfolding devices_recipients [OF assms] activeDevices_def inactiveDevices_def mset_append
  by (rule mset_two_filters) auto

lemma distinct_of_mset:
  "mset xs = mset (map f (filter P ys)) \<Longrightarrow> distinct (map f ys) \<Longrightarrow> distinct xs"
  by (metis distinct_map_filter mset_eq_imp_distinct_iff)

lemma entries_split:
  "length xs = n \<Longrightarrow> take n (xs @ ys) = xs \<and> drop n (xs @ ys) = ys"
  by simp

text \<open>
  C2 (as amended). For each of the three broadcasts that returns, the recipients of the
  \<open>details\<close> entries are, as a multiset, the ids of the enumerated rows that the exclusion
  argument does not exclude: every such row has exactly one entry, eligible or not, and the
  excluded recipient has none. So the length of \<open>details\<close> is the number of enumerated rows
  less the excluded ones (all rows for the system broadcast), and no recipient appears
  twice when the ids of the table are distinct. The first \<open>total\<close> entries are those of the
  eligible recipients, in order; the entries after them are the ineligible recipients with
  status \<open>no_token\<close> (\<open>inactive\<close> in the device variant); and the sends attempted are those
  for the eligible recipients only.
\<close>

theorem details_cover_recipients:
  "(sendBroadcastNotification_users p ex ra c = (Inr r, c') \<longrightarrow>
      mset (map recipient (details r))
        = mset (map u_id (filter (\<lambda>usr. \<not> excludedUser ex (getCurrentUser c) usr) (db c))) \<and>
      length (details r)
        = length (filter (\<lambda>usr. \<not> excludedUser ex (getCurrentUser c) usr) (db c)) \<and>
      map recipient (take (total r) (details r))
        = map u_id (usersWithTokens ex (getCurrentUser c) (db c)) \<and>
      drop (total r) (details r)
        = map withoutToken (usersWithoutTokens ex (getCurrentUser c) (db c)) \<and>
      attempts c' = attempts c @ map u_id (usersWithTokens ex (getCurrentUser c) (db c)) \<and>
      (distinct (map u_id (db c)) \<longrightarrow> distinct (map recipient (details r))))
   \<and> (sendSystemBroadcast q cs = (Inr rs, cs') \<longrightarrow>
      mset (map recipient (details rs)) = mset (map u_id (db cs)) \<and>
      length (details rs) = length (db cs) \<and>
      map recipient (take (total rs) (details rs))
        = map u_id (filter (\<lambda>usr. truthy (u_pushToken usr)) (db cs)) \<and>
      drop (total rs) (details rs)
        = map withoutToken (filter (\<lambda>usr. \<not> truthy (u_pushToken usr)) (db cs)) \<and>
      attempts cs' = attempts cs @ map u_id (filter (\<lambda>usr. truthy (u_pushToken usr)) (db cs)) \<and>
      (distinct (map u_id (db cs)) \<longrightarrow> distinct (map recipient (details rs))))
   \<and> (sendBroadcastNotification_devices pd exd cd = (Inr rd, cd') \<longrightarrow>
      mset (map recipient (details rd))
        = mset (map d_id (filter (\<lambda>dev. \<not> excludedDevice exd dev) (db cd))) \<and>
      length (details rd) = length (filter (\<lambda>dev. \<not> excludedDevice exd dev) (db cd)) \<and>
      map recipient (take (total rd) (details rd)) = map d_id (activeDevices exd (db cd)) \<and>
      drop (total rd) (details rd) = map inactiveEntry (inactiveDevices exd (db cd)) \<and>
      attempts cd' = attempts cd @ map d_id (activeDevices exd (db cd)) \<and>
      (distinct (map d_id (db cd)) \<longrightarrow> distinct (map recipient (details rd))))"
proof (intro conjI impI)
  assume a: "sendBroadcastNotification_users p ex ra c = (Inr r, c')"
  note m = users_recipients_mset [OF a]
  note f = users_broadcast_result [OF a]
  show "mset (map recipient (details r))
        = mset (map u_id (filter (\<lambda>usr. \<not> excludedUser ex (getCurrentUser c) usr) (db c)))"
    by (rule m)
  from mset_eq_length [OF m]
  show "length (details r)
        = length (filter (\<lambda>usr. \<not> excludedUser ex (getCurrentUser c) usr) (db c))"
    by simp
  have len: "length (map2 userEntry (map u_id (usersWithTokens ex (getCurrentUser c) (db c)))
               (deliveries p (push c) (map u_id (usersWithTokens ex (getCurrentUser c) (db c)))))
             = total r"
    by (simp add: f(3) length_deliveries)
  note sp = entries_split [OF len, of "map withoutToken (usersWithoutTokens ex (getCurrentUser c) (db c))",
      folded f(4)]
  show "map recipient (take (total r) (details r))
        = map u_id (usersWithTokens ex (getCurrentUser c) (db c))"
    unfolding sp [THEN conjunct1]
    by (rule recipients_userEntries) (simp add: length_deliveries)
  show "drop (total r) (details r)
        = map withoutToken (usersWithoutTokens ex (getCurrentUser c) (db c))"
    by (rule sp [THEN conjunct2])
  show "attempts c' = attempts c @ map u_id (usersWithTokens ex (getCurrentUser c) (db c))"
    by (rule f(5))
  assume "distinct (map u_id (db c))"
  with m show "distinct (map recipient (details r))"
    by (rule distinct_of_mset)
next
  assume a: "sendSystemBroadcast q cs = (Inr rs, cs')"
  note m = system_recipients_mset [OF a]
  note f = system_broadcast_result [OF a]
  show "mset (map recipient (details rs)) = mset (map u_id (db cs))"
    by (rule m)
  from mset_eq_length [OF m] show "length (details rs) = length (db cs)"
    by simp
  have len: "length (map2 userEntry (map u_id (filter (\<lambda>usr. truthy (u_pushToken usr)) (db cs)))
               (deliveries q (push cs)
                  (map u_id (filter (\<lambda>usr. truthy (u_pushToken usr)) (db cs)))))
             = total rs"
    by (simp add: f(3) length_deliveries)
  note sp = entries_split [OF len,
      of "map withoutToken (filter (\<lambda>usr. \<not> truthy (u_pushToken usr)) (db cs))", folded f(4)]
  show "map recipient (take (total rs) (details rs))
        = map u_id (filter (\<lambda>usr. truthy (u_pushToken usr)) (db cs))"
    unfolding sp [THEN conjunct1]
    by (rule recipients_userEntries) (simp add: length_deliveries)
  show "drop (total rs) (details rs)
        = map withoutToken (filter (\<lambda>usr. \<not> truthy (u_pushToken usr)) (db cs))"
    by (rule sp [THEN conjunct2])
  show "attempts cs' = attempts cs @ map u_id (filter (\<lambda>usr. truthy (u_pushToken usr)) (db cs))"
    by (rule f(5))
  assume "distinct (map u_id (db cs))"
  with m show "distinct (map recipient (details rs))"
    by (metis mset_eq_imp_distinct_iff)
next
  assume a: "sendBroadcastNotification_devices pd exd cd = (Inr rd, cd')"
  note m = devices_recipients_mset [OF a]
  note f = devices_broadcast_result [OF a]
  show "mset (map recipient (details rd))
        = mset (map d_id (filter (\<lambda>dev. \<not> excludedDevice exd dev) (db cd)))"
    by (rule m)
  from mset_eq_length [OF m]
  show "length (details rd) = length (filter (\<lambda>dev. \<not> excludedDevice exd dev) (db cd))"
    by simp
  have len: "length (map2 deviceEntry (map d_id (activeDevices exd (db cd)))
               (deliveries pd (push cd) (map d_id (activeDevices exd (db cd)))))
             = total rd"
    by (simp add: f(3) length_deliveries)
  note sp = entries_split [OF len, of "map inactiveEntry (inactiveDevices exd (db cd))",
      folded f(4)]
  show "map recipient (take (total rd) (details rd)) = map d_id (activeDevices exd (db cd))"
    unfolding sp [THEN conjunct1]
    by (rule recipients_deviceEntries) (simp add: length_deliveries)
  show "drop (total rd) (details rd) = map inactiveEntry (inactiveDevices exd (db cd))"
    by (rule sp [THEN conjunct2])
  show "attempts cd' = attempts cd @ map d_id (activeDevices exd (db cd))"
    by (rule f(5))
  assume "distinct (map d_id (db cd))"
  with m show "distinct (map recipient (details rd))"
    by (rule distinct_of_mset)
qed

theorem details_cover_recipients_witness:
  "sendBroadcastNotification_users scripted (Some True) None
       (usersCtx (Some ''alice'') (tl failsOnce))
     = (Inr usersOutcome, (usersCtx (Some ''alice'') [])\<lparr>attempts := [''bob'', ''dave'']\<rparr>)
   \<and> sendSystemBroadcast scripted (usersCtx None failsOnce)
     = (Inr systemOutcome, (usersCtx None [])\<lparr>attempts := [''alice'', ''bob'', ''dave'']\<rparr>)
   \<and> sendBroadcastNotification_devices scripted (Some ''d1'') (devicesCtx (tl failsOnce))
     = (Inr exclusionOutcome, (devicesCtx [])\<lparr>attempts := [''d2'', ''d4'']\<rparr>)
   \<and> distinct (map u_id (db (usersCtx (Some ''alice'') (tl failsOnce))))
   \<and> distinct (map u_id (db (usersCtx None failsOnce)))
   \<and> distinct (map d_id (db (devicesCtx (tl failsOnce))))
   \<and> mset (map recipient (details usersOutcome)) = mset [''bob'', ''carol'', ''dave'']
   \<and> length (details usersOutcome) = 3
   \<and> distinct (map recipient (details usersOutcome))
   \<and> mset (map recipient (details systemOutcome)) = mset [''alice'', ''bob'', ''carol'', ''dave'']
   \<and> length (details systemOutcome) = 4
   \<and> distinct (map recipient (details systemOutcome))
   \<and> mset (map recipient (details exclusionOutcome)) = mset [''d2'', ''d3'', ''d4'']
   \<and> length (details exclusionOutcome) = 3
   \<and> distinct (map recipient (details exclusionOutcome))"
proof -
  note run = users_scenario system_scenario exclusion_scenario
  have dist: "distinct (map u_id (db (usersCtx (Some ''alice'') (tl failsOnce))))"
    "distinct (map u_id (db (usersCtx None failsOnce)))"
    "distinct (map d_id (db (devicesCtx (tl failsOnce))))"
    by (simp_all add: example_defs)
  have sel:
    "map u_id (filter (\<lambda>usr. \<not> excludedUser (Some True)
         (getCurrentUser (usersCtx (Some ''alice'') (tl failsOnce))) usr)
       (db (usersCtx (Some ''alice'') (tl failsOnce)))) = [''bob'', ''carol'', ''dave'']"
    "map u_id (db (usersCtx None failsOnce)) = [''alice'', ''bob'', ''carol'', ''dave'']"
    "map d_id (filter (\<lambda>dev. \<not> excludedDevice (Some ''d1'') dev) (db (devicesCtx (tl failsOnce))))
       = [''d2'', ''d3'', ''d4'']"
    by (simp_all add: handler_defs example_defs)
  note inst = details_cover_recipients
    [of scripted "Some True" None "usersCtx (Some ''alice'') (tl failsOnce)" usersOutcome
        "(usersCtx (Some ''alice'') [])\<lparr>attempts := [''bob'', ''dave'']\<rparr>"
        scripted "usersCtx None failsOnce" systemOutcome
        "(usersCtx None [])\<lparr>attempts := [''alice'', ''bob'', ''dave'']\<rparr>"
        scripted "Some ''d1''" "devicesCtx (tl failsOnce)" exclusionOutcome
        "(devicesCtx [])\<lparr>attempts := [''d2'', ''d4'']\<rparr>"]
  from inst [THEN conjunct1] run(1) dist(1)
  have u: "mset (map recipient (details usersOutcome)) = mset [''bob'', ''carol'', ''dave'']"
    "distinct (map recipient (details usersOutcome))"
    by (simp_all only: sel)
  from inst [THEN conjunct2, THEN conjunct1] run(2) dist(2)
  have s: "mset (map recipient (details systemOutcome))
             = mset [''alice'', ''bob'', ''carol'', ''dave'']"
    "distinct (map recipient (details systemOutcome))"
    by (simp_all only: sel)
  from inst [THEN conjunct2, THEN conjunct2] run(3) dist(3)
  have d: "mset (map recipient (details exclusionOutcome)) = mset [''d2'', ''d3'', ''d4'']"
    "distinct (map recipient (details exclusionOutcome))"
    by (simp_all only: sel)
  have l: "length (details usersOutcome) = 3" "length (details systemOutcome) = 4"
    "length (details exclusionOutcome) = 3"
    using mset_eq_length [OF u(1)] mset_eq_length [OF s(1)] mset_eq_length [OF d(1)]
    by simp_all
  from run dist u s d l show ?thesis
    by (intro conjI)
qed

text \<open>
  The claim as written fails: Alice, who broadcasts with \<open>excludeCurrentUser\<close>, is one of
  the four enumerated users and has no entry among the three of \<open>details\<close>.
\<close>

theorem details_cover_recipients_counterexample:
  "sendBroadcastNotification_users scripted (Some True) None
       (usersCtx (Some ''alice'') (tl failsOnce))
     = (Inr usersOutcome, (usersCtx (Some ''alice'') [])\<lparr>attempts := [''bob'', ''dave'']\<rparr>)
   \<and> length (db (usersCtx (Some ''alice'') (tl failsOnce))) = 4
   \<and> length (details usersOutcome) = 3
   \<and> ''alice'' \<in> set (map u_id (db (usersCtx (Some ''alice'') (tl failsOnce))))
   \<and> ''alice'' \<notin> set (map recipient (details usersOutcome))"
  by (simp add: users_scenario) (simp add: usersOutcome_def example_defs)

subsection \<open>A send that throws\<close>

lemma nth_userEntries:
  "length ids = length rs \<Longrightarrow> k < length ids \<Longrightarrow>
     (map2 userEntry ids rs @ others) ! k = userEntry (ids ! k) (rs ! k)"
  by (simp add: nth_append)

lemma nth_deviceEntries:
  "length ids = length rs \<Longrightarrow> k < length ids \<Longrightarrow>
     (map2 deviceEntry ids rs @ others) ! k = deviceEntry (ids ! k) (rs ! k)"
  by (simp add: nth_append)

lemma threw_counted: "k < length rs \<Longrightarrow> rs ! k = Throws e \<Longrightarrow> 0 < length (filter threw rs)"
  by (metis filter_empty_conv length_greater_0_conv nth_mem threw.simps(2))

lemma users_throw:
  assumes auth: "ra = Some False \<or> getCurrentUser c \<noteq> None"
    and k: "k < length (usersWithTokens ex (getCurrentUser c) (db c))"
    and e: "usersRun p ex c ! k = Throws e"
  shows "\<exists>r c'. sendBroadcastNotification_users p ex ra c = (Inr r, c') \<and>
           details r ! k =
             \<lparr>recipient = u_id (usersWithTokens ex (getCurrentUser c) (db c) ! k),
              status = Failed, notificationId = None, error = Some (errorMessage e)\<rparr> \<and>
           failed r = length (filter threw (usersRun p ex c)) \<and> 0 < failed r \<and>
           attempts c' = attempts c @ map u_id (usersWithTokens ex (getCurrentUser c) (db c))"
proof -
  from users_broadcast_returns [OF auth] obtain r c'
    where call: "sendBroadcastNotification_users p ex ra c = (Inr r, c')"
    by blast
  note f = users_broadcast_result [OF call]
  have len: "length (usersRun p ex c) = length (usersWithTokens ex (getCurrentUser c) (db c))"
    by (simp add: usersRun_def length_deliveries)
  have "details r ! k
          = userEntry (map u_id (usersWithTokens ex (getCurrentUser c) (db c)) ! k)
              (usersRun p ex c ! k)"
    unfolding f(4) usersRun_def
    by (rule nth_userEntries) (simp_all add: length_deliveries k)
  with k e have entry: "details r ! k =
      \<lparr>recipient = u_id (usersWithTokens ex (getCurrentUser c) (db c) ! k),
       status = Failed, notificationId = None, error = Some (errorMessage e)\<rparr>"
    by simp
  have cnt: "failed r = length (filter threw (usersRun p ex c))"
    by (simp add: f(2) usersRun_def)
  from k e len have "0 < length (filter threw (usersRun p ex c))"
    by (intro threw_counted [of k _ e]) simp_all
  with call entry cnt f(5) show ?thesis
    by simp
qed

lemma system_throw:
  assumes k: "k < length (filter (\<lambda>usr. truthy (u_pushToken usr)) (db c))"
    and e: "systemRun p c ! k = Throws e"
  shows "\<exists>r c'. sendSystemBroadcast p c = (Inr r, c') \<and>
           details r ! k =
             \<lparr>recipient = u_id (filter (\<lambda>usr. truthy (u_pushToken usr)) (db c) ! k),
              status = Failed, notificationId = None, error = Some (errorMessage e)\<rparr> \<and>
           failed r = length (filter threw (systemRun p c)) \<and> 0 < failed r \<and>
           attempts c' = attempts c @ map u_id (filter (\<lambda>usr. truthy (u_pushToken usr)) (db c))"
proof -
  from system_broadcast_returns obtain r c'
    where call: "sendSystemBroadcast p c = (Inr r, c')"
    by blast
  note f = system_broadcast_result [OF call]
  have len: "length (systemRun p c) = length (filter (\<lambda>usr. truthy (u_pushToken usr)) (db c))"
    by (simp add: systemRun_def length_deliveries)
  have "details r ! k
          = userEntry (map u_id (filter (\<lambda>usr. truthy (u_pushToken usr)) (db c)) ! k)
              (systemRun p c ! k)"
    unfolding f(4) systemRun_def
    by (rule nth_userEntries) (simp_all add: length_deliveries k)
  with k e have entry: "details r ! k =
      \<lparr>recipient = u_id (filter (\<lambda>usr. truthy (u_pushToken usr)) (db c) ! k),
       status = Failed, notificationId = None, error = Some (errorMessage e)\<rparr>"
    by simp
  have cnt: "failed r = length (filter threw (systemRun p c))"
    by (simp add: f(2) systemRun_def)
  from k e len have "0 < length (filter threw (systemRun p c))"
    by (intro threw_counted [of k _ e]) simp_all
  with call entry cnt f(5) show ?thesis
    by simp
qed

lemma devices_throw:
  assumes k: "k < length (activeDevices ex (db c))"
    and e: "devicesRun p ex c ! k = Throws e"
  shows "\<exists>r c'. sendBroadcastNotification_devices p ex c = (Inr r, c') \<and>
           details r ! k =
             \<lparr>recipient = d_id (activeDevices ex (db c) ! k),
              status = Failed, notificationId = None, error = Some (errorMessage e)\<rparr> \<and>
           failed r = length (filter threw (devicesRun p ex c)) \<and> 0 < failed r \<and>
           attempts c' = attempts c @ map d_id (activeDevices ex (db c))"
proof -
  from devices_broadcast_returns obtain r c'
    where call: "sendBroadcastNotification_devices p ex c = (Inr r, c')"
    by blast
  note f = devices_broadcast_result [OF call]
  have len: "length (devicesRun p ex c) = length (activeDevices ex (db c))"
    by (simp add: devicesRun_def length_deliveries)
  have "details r ! k
          = deviceEntry (map d_id (activeDevices ex (db c)) ! k) (devicesRun p ex c ! k)"
    unfolding f(4) devicesRun_def
    by (rule nth_deviceEntries) (simp_all add: length_deliveries k)
  with k e have entry: "details r ! k =
      \<lparr>recipient = d_id (activeDevices ex (db c) ! k),
       status = Failed, notificationId = None, error = Some (errorMessage e)\<rparr>"
    by simp
  have cnt: "failed r = length (filter threw (devicesRun p ex c))"
    by (simp add: f(2) devicesRun_def)
  from k e len have "0 < length (filter threw (devicesRun p ex c))"
    by (intro threw_counted [of k _ e]) simp_all
  with call entry cnt f(5) show ?thesis
    by simp
qed


text \<open>
  C3. In each of the three broadcasts, when the send for the \<open>k\<close>-th eligible recipient
  throws \<open>e\<close>, the broadcast still returns a result (for the authenticated broadcast: once
  the caller has passed the authentication check); entry \<open>k\<close> of \<open>details\<close> is that recipient
  with status \<open>failed\<close> and the message of \<open>e\<close>; \<open>failed\<close> counts every send that threw, so
  it is positive; and a send was attempted for every eligible recipient, those after the
  one that threw included. The message of an \<open>Error\<close> is its \<open>message\<close> field.
\<close>

theorem throwing_send_is_recorded:
  "((ra = Some False \<or> getCurrentUser c \<noteq> None) \<and>
    k < length (usersWithTokens ex (getCurrentUser c) (db c)) \<and>
    usersRun p ex c ! k = Throws e \<longrightarrow>
      (\<exists>r c'. sendBroadcastNotification_users p ex ra c = (Inr r, c') \<and>
           details r ! k =
             \<lparr>recipient = u_id (usersWithTokens ex (getCurrentUser c) (db c) ! k),
              status = Failed, notificationId = None, error = Some (errorMessage e)\<rparr> \<and>
           failed r = length (filter threw (usersRun p ex c)) \<and> 0 < failed r \<and>
           attempts c' = attempts c @ map u_id (usersWithTokens ex (getCurrentUser c) (db c))))
   \<and> (ks < length (filter (\<lambda>usr. truthy (u_pushToken usr)) (db cs)) \<and>
       systemRun q cs ! ks = Throws es \<longrightarrow>
      (\<exists>r c'. sendSystemBroadcast q cs = (Inr r, c') \<and>
           details r ! ks =
             \<lparr>recipient = u_id (filter (\<lambda>usr. truthy (u_pushToken usr)) (db cs) ! ks),
              status = Failed, notificationId = None, error = Some (errorMessage es)\<rparr> \<and>
           failed r = length (filter threw (systemRun q cs)) \<and> 0 < failed r \<and>
           attempts c' = attempts cs @ map u_id (filter (\<lambda>usr. truthy (u_pushToken usr)) (db cs))))
   \<and> (kd < length (activeDevices exd (db cd)) \<and> devicesRun pd exd cd ! kd = Throws ed \<longrightarrow>
      (\<exists>r c'. sendBroadcastNotification_devices pd exd cd = (Inr r, c') \<and>
           details r ! kd =
             \<lparr>recipient = d_id (activeDevices exd (db cd) ! kd),
              status = Failed, notificationId = None, error = Some (errorMessage ed)\<rparr> \<and>
           failed r = length (filter threw (devicesRun pd exd cd)) \<and> 0 < failed r \<and>
           attempts c' = attempts cd @ map d_id (activeDevices exd (db cd))))
   \<and> errorMessage (Error m) = m"
proof (intro conjI impI)
  assume "(ra = Some False \<or> getCurrentUser c \<noteq> None) \<and>
    k < length (usersWithTokens ex (getCurrentUser c) (db c)) \<and>
    usersRun p ex c ! k = Throws e"
  then show "\<exists>r c'. sendBroadcastNotification_users p ex ra c = (Inr r, c') \<and>
           details r ! k =
             \<lparr>recipient = u_id (usersWithTokens ex (getCurrentUser c) (db c) ! k),
              status = Failed, notificationId = None, error = Some (errorMessage e)\<rparr> \<and>
           failed r = length (filter threw (usersRun p ex c)) \<and> 0 < failed r \<and>
           attempts c' = attempts c @ map u_id (usersWithTokens ex (getCurrentUser c) (db c))"
    using users_throw [of ra c k ex p e] by blast
next
  assume "ks < length (filter (\<lambda>usr. truthy (u_pushToken usr)) (db cs)) \<and>
       systemRun q cs ! ks = Throws es"
  then show "\<exists>r c'. sendSystemBroadcast q cs = (Inr r, c') \<and>
           details r ! ks =
             \<lparr>recipient = u_id (filter (\<lambda>usr. truthy (u_pushToken usr)) (db cs) ! ks),
              status = Failed, notificationId = None, error = Some (errorMessage es)\<rparr> \<and>
           failed r = length (filter threw (systemRun q cs)) \<and> 0 < failed r \<and>
           attempts c' = attempts cs @ map u_id (filter (\<lambda>usr. truthy (u_pushToken usr)) (db cs))"
    using system_throw [of ks cs q es] by blast
next
  assume "kd < length (activeDevices exd (db cd)) \<and> devicesRun pd exd cd ! kd = Throws ed"
  then show "\<exists>r c'. sendBroadcastNotification_devices pd exd cd = (Inr r, c') \<and>
           details r ! kd =
             \<lparr>recipient = d_id (activeDevices exd (db cd) ! kd),
              status = Failed, notificationId = None, error = Some (errorMessage ed)\<rparr> \<and>
           failed r = length (filter threw (devicesRun pd exd cd)) \<and> 0 < failed r \<and>
           attempts c' = attempts cd @ map d_id (activeDevices exd (db cd))"
    using devices_throw [of kd exd cd pd ed] by blast
next
  show "errorMessage (Error m) = m"
    by (simp add: errorMessage_def)
qed

theorem throwing_send_is_recorded_witness:
  "getCurrentUser (usersCtx (Some ''alice'') (tl failsOnce)) = Some alice
   \<and> usersWithTokens (Some True) (Some alice) (db (usersCtx (Some ''alice'') (tl failsOnce)))
       = [bob, dave]
   \<and> usersRun scripted (Some True) (usersCtx (Some ''alice'') (tl failsOnce)) ! 0
       = Throws (Error ''boom'')
   \<and> filter (\<lambda>usr. truthy (u_pushToken usr)) (db (usersCtx None failsOnce)) = [alice, bob, dave]
   \<and> systemRun scripted (usersCtx None failsOnce) ! 1 = Throws (Error ''boom'')
   \<and> activeDevices None (db (devicesCtx failsOnce)) = [phone, tablet, watch]
   \<and> devicesRun scripted None (devicesCtx failsOnce) ! 1 = Throws (Error ''boom'')
   \<and> sendBroadcastNotification_users scripted (Some True) None
         (usersCtx (Some ''alice'') (tl failsOnce))
       = (Inr usersOutcome, (usersCtx (Some ''alice'') [])\<lparr>attempts := [''bob'', ''dave'']\<rparr>)
   \<and> details usersOutcome ! 0
       = \<lparr>recipient = ''bob'', status = Failed, notificationId = None, error = Some ''boom''\<rparr>
   \<and> failed usersOutcome = 1
   \<and> sendSystemBroadcast scripted (usersCtx None failsOnce)
       = (Inr systemOutcome, (usersCtx None [])\<lparr>attempts := [''alice'', ''bob'', ''dave'']\<rparr>)
   \<and> details systemOutcome ! 1
       = \<lparr>recipient = ''bob'', status = Failed, notificationId = None, error = Some ''boom''\<rparr>
   \<and> failed systemOutcome = 1
   \<and> sendBroadcastNotification_devices scripted None (devicesCtx failsOnce)
       = (Inr devicesOutcome, (devicesCtx [])\<lparr>attempts := [''d1'', ''d2'', ''d4'']\<rparr>)
   \<and> details devicesOutcome ! 1
       = \<lparr>recipient = ''d2'', status = Failed, notificationId = None, error = Some ''boom''\<rparr>
   \<and> failed devicesOutcome = 1"
proof -
  have cu: "getCurrentUser (usersCtx (Some ''alice'') (tl failsOnce)) = Some alice"
    by (simp add: handler_defs example_defs)
  have sel: "usersWithTokens (Some True) (Some alice) (db (usersCtx (Some ''alice'') (tl failsOnce)))
       = [bob, dave]"
    "filter (\<lambda>usr. truthy (u_pushToken usr)) (db (usersCtx None failsOnce)) = [alice, bob, dave]"
    "activeDevices None (db (devicesCtx failsOnce)) = [phone, tablet, watch]"
    by (simp_all add: handler_defs example_defs)
  have run: "usersRun scripted (Some True) (usersCtx (Some ''alice'') (tl failsOnce)) ! 0
       = Throws (Error ''boom'')"
    "systemRun scripted (usersCtx None failsOnce) ! 1 = Throws (Error ''boom'')"
    "devicesRun scripted None (devicesCtx failsOnce) ! 1 = Throws (Error ''boom'')"
    by (simp_all add: usersRun_def systemRun_def devicesRun_def handler_defs example_defs)
  note inst = throwing_send_is_recorded
    [of None "usersCtx (Some ''alice'') (tl failsOnce)" 0 "Some True" scripted "Error ''boom''"
        1 "usersCtx None failsOnce" scripted "Error ''boom''"
        1 None "devicesCtx failsOnce" scripted "Error ''boom''"]
  from inst [THEN conjunct1] cu sel(1) run(1) users_scenario
  have u: "details usersOutcome ! 0
       = \<lparr>recipient = u_id ([bob, dave] ! 0), status = Failed, notificationId = None,
          error = Some (errorMessage (Error ''boom''))\<rparr>"
    by auto
  from inst [THEN conjunct2, THEN conjunct1] sel(2) run(2) system_scenario
  have s: "details systemOutcome ! 1
       = \<lparr>recipient = u_id ([alice, bob, dave] ! 1), status = Failed, notificationId = None,
          error = Some (errorMessage (Error ''boom''))\<rparr>"
    by auto
  from inst [THEN conjunct2, THEN conjunct2, THEN conjunct1] sel(3) run(3) devices_scenario
  have d: "details devicesOutcome ! 1
       = \<lparr>recipient = d_id ([phone, tablet, watch] ! 1), status = Failed, notificationId = None,
          error = Some (errorMessage (Error ''boom''))\<rparr>"
    by auto
  have n: "failed usersOutcome = 1" "failed systemOutcome = 1" "failed devicesOutcome = 1"
    by (simp_all add: usersOutcome_def systemOutcome_def devicesOutcome_def)
  from u s d have e: "details usersOutcome ! 0
       = \<lparr>recipient = ''bob'', status = Failed, notificationId = None, error = Some ''boom''\<rparr>"
    "details systemOutcome ! 1
       = \<lparr>recipient = ''bob'', status = Failed, notificationId = None, error = Some ''boom''\<rparr>"
    "details devicesOutcome ! 1
       = \<lparr>recipient = ''d2'', status = Failed, notificationId = None, error = Some ''boom''\<rparr>"
    by (simp_all add: example_defs)
  from cu sel run users_scenario system_scenario devices_scenario e n show ?thesis
    by (intro conjI)
qed

subsection \<open>Exclusion\<close>

lemma excluded_not_with_token:
  "u_id cu \<notin> set (map u_id (usersWithTokens (Some True) (Some cu) us))"
  by (auto simp: usersWithTokens_def excludedUser_def)

lemma excluded_not_without_token:
  "u_id cu \<notin> set (map u_id (usersWithoutTokens (Some True) (Some cu) us))"
  by (auto simp: usersWithoutTokens_def excludedUser_def)

lemma excluded_not_active:
  "x \<noteq> [] \<Longrightarrow> x \<notin> set (map d_id (activeDevices (Some x) ds))"
  by (auto simp: activeDevices_def excludedDevice_def truthy_def)

lemma excluded_not_inactive:
  "x \<noteq> [] \<Longrightarrow> x \<notin> set (map d_id (inactiveDevices (Some x) ds))"
  by (auto simp: inactiveDevices_def excludedDevice_def truthy_def)

lemma usersWithTokens_excluding:
  "usersWithTokens (Some True) (Some cu) us
     = filter (\<lambda>usr. u_id usr \<noteq> u_id cu \<and> truthy (u_pushToken usr)) us"
  unfolding usersWithTokens_def excludedUser_def
  by (rule filter_cong) auto

lemma activeDevices_excluding:
  "x \<noteq> [] \<Longrightarrow>
     activeDevices (Some x) ds = filter (\<lambda>dev. d_id dev \<noteq> x \<and> isActive dev \<noteq> Some False) ds"
  unfolding activeDevices_def excludedDevice_def
  by (rule filter_cong) (auto simp: truthy_def)

text \<open>
  C4. A broadcast of the user variant with \<open>excludeCurrentUser: true\<close> by the signed-in user
  \<open>cu\<close>, and a broadcast of the device variant with \<open>excludeDeviceId\<close> a (non-empty) id \<open>x\<close>:
  the named recipient is not among the eligible recipients, the sends attempted by the
  call are those for the eligible recipients and none is for it, no entry of \<open>details\<close> is
  for it (with any status), and \<open>total\<close> counts the other rows with a token (not marked
  inactive) only.
\<close>

theorem excluded_recipient_left_out:
  "(getCurrentUser c = Some cu \<and>
    sendBroadcastNotification_users p (Some True) ra c = (Inr r, c') \<longrightarrow>
      u_id cu \<notin> set (map u_id (usersWithTokens (Some True) (getCurrentUser c) (db c))) \<and>
      attempts c' = attempts c @ map u_id (usersWithTokens (Some True) (getCurrentUser c) (db c)) \<and>
      u_id cu \<notin> set (map recipient (details r)) \<and>
      total r = length (filter (\<lambda>usr. u_id usr \<noteq> u_id cu \<and> truthy (u_pushToken usr)) (db c)))
   \<and> (x \<noteq> [] \<and> sendBroadcastNotification_devices pd (Some x) cd = (Inr rd, cd') \<longrightarrow>
      x \<notin> set (map d_id (activeDevices (Some x) (db cd))) \<and>
      attempts cd' = attempts cd @ map d_id (activeDevices (Some x) (db cd)) \<and>
      x \<notin> set (map recipient (details rd)) \<and>
      total rd = length (filter (\<lambda>dev. d_id dev \<noteq> x \<and> isActive dev \<noteq> Some False) (db cd)))"
proof (intro conjI impI)
  assume a: "getCurrentUser c = Some cu \<and>
    sendBroadcastNotification_users p (Some True) ra c = (Inr r, c')"
  then have cu: "getCurrentUser c = Some cu"
    and call: "sendBroadcastNotification_users p (Some True) ra c = (Inr r, c')"
    by simp_all
  note f = users_broadcast_result [OF call]
  show "u_id cu \<notin> set (map u_id (usersWithTokens (Some True) (getCurrentUser c) (db c)))"
    unfolding cu by (rule excluded_not_with_token)
  show "attempts c' = attempts c @ map u_id (usersWithTokens (Some True) (getCurrentUser c) (db c))"
    by (rule f(5))
  show "u_id cu \<notin> set (map recipient (details r))"
    unfolding users_recipients [OF call] cu
    using excluded_not_with_token [of cu "db c"] excluded_not_without_token [of cu "db c"]
    by simp
  show "total r = length (filter (\<lambda>usr. u_id usr \<noteq> u_id cu \<and> truthy (u_pushToken usr)) (db c))"
    unfolding f(3) cu usersWithTokens_excluding ..
next
  assume a: "x \<noteq> [] \<and> sendBroadcastNotification_devices pd (Some x) cd = (Inr rd, cd')"
  then have x: "x \<noteq> []"
    and call: "sendBroadcastNotification_devices pd (Some x) cd = (Inr rd, cd')"
    by simp_all
  note f = devices_broadcast_result [OF call]
  show "x \<notin> set (map d_id (activeDevices (Some x) (db cd)))"
    using x by (rule excluded_not_active)
  show "attempts cd' = attempts cd @ map d_id (activeDevices (Some x) (db cd))"
    by (rule f(5))
  show "x \<notin> set (map recipient (details rd))"
    unfolding devices_recipients [OF call]
    using excluded_not_active [OF x, of "db cd"] excluded_not_inactive [OF x, of "db cd"]
    by simp
  show "total rd = length (filter (\<lambda>dev. d_id dev \<noteq> x \<and> isActive dev \<noteq> Some False) (db cd))"
    unfolding f(3) activeDevices_excluding [OF x] ..
qed

theorem excluded_recipient_left_out_witness:
  "getCurrentUser (usersCtx (Some ''alice'') (tl failsOnce)) = Some alice
   \<and> sendBroadcastNotification_users scripted (Some True) None
         (usersCtx (Some ''alice'') (tl failsOnce))
       = (Inr usersOutcome, (usersCtx (Some ''alice'') [])\<lparr>attempts := [''bob'', ''dave'']\<rparr>)
   \<and> ''d1'' \<noteq> []
   \<and> sendBroadcastNotification_devices scripted (Some ''d1'') (devicesCtx (tl failsOnce))
       = (Inr exclusionOutcome, (devicesCtx [])\<lparr>attempts := [''d2'', ''d4'']\<rparr>)
   \<and> ''alice'' \<notin> set (map recipient (details usersOutcome))
   \<and> ''alice'' \<notin> set [''bob'', ''dave'']
   \<and> total usersOutcome = 2
   \<and> ''d1'' \<notin> set (map recipient (details exclusionOutcome))
   \<and> ''d1'' \<notin> set [''d2'', ''d4'']
   \<and> total exclusionOutcome = 2"
proof -
  have cu: "getCurrentUser (usersCtx (Some ''alice'') (tl failsOnce)) = Some alice"
    by (simp add: handler_defs example_defs)
  have x: "''d1'' \<noteq> []"
    by simp
  note inst = excluded_recipient_left_out
    [of "usersCtx (Some ''alice'') (tl failsOnce)" alice scripted None usersOutcome
        "(usersCtx (Some ''alice'') [])\<lparr>attempts := [''bob'', ''dave'']\<rparr>"
        "''d1''" scripted "devicesCtx (tl failsOnce)" exclusionOutcome
        "(devicesCtx [])\<lparr>attempts := [''d2'', ''d4'']\<rparr>"]
  from inst [THEN conjunct1] cu users_scenario
  have u: "u_id alice \<notin> set (map recipient (details usersOutcome))"
    by blast
  from inst [THEN conjunct2] x exclusion_scenario
  have d: "''d1'' \<notin> set (map recipient (details exclusionOutcome))"
    by blast
  from u have u': "''alice'' \<notin> set (map recipient (details usersOutcome))"
    by (simp add: alice_def)
  have rest: "''alice'' \<notin> set [''bob'', ''dave'']" "total usersOutcome = 2"
    "''d1'' \<notin> set [''d2'', ''d4'']" "total exclusionOutcome = 2"
    by (simp_all add: usersOutcome_def exclusionOutcome_def)
  from cu users_scenario x exclusion_scenario u' d rest show ?thesis
    by (intro conjI)
qed

subsection \<open>A system broadcast through the authenticated handler\<close>

lemma usersWithTokens_nobody:
  "usersWithTokens ex None us = filter (\<lambda>usr. truthy (u_pushToken usr)) us"
  unfolding usersWithTokens_def excludedUser_def
  by (rule filter_cong) auto

text \<open>
  C9. \<open>sendBroadcastNotification\<close> of the user variant with \<open>requireAuth: false\<close>, when no
  current user resolves: the call returns a result, whatever \<open>excludeCurrentUser\<close> is; the
  result has no \<open>senderId\<close>; and a send is attempted for every user with a token, none
  being excluded, \<open>total\<close> being their number.
\<close>

theorem anonymous_broadcast_excludes_nobody:
  "getCurrentUser c = None \<longrightarrow>
     (\<exists>r c'. sendBroadcastNotification_users p ex (Some False) c = (Inr r, c') \<and>
        senderId r = None \<and>
        attempts c' = attempts c @ map u_id (filter (\<lambda>usr. truthy (u_pushToken usr)) (db c)) \<and>
        total r = length (filter (\<lambda>usr. truthy (u_pushToken usr)) (db c)))"
proof
  assume none: "getCurrentUser c = None"
  from users_broadcast_returns [of "Some False" c p ex] obtain r c'
    where call: "sendBroadcastNotification_users p ex (Some False) c = (Inr r, c')"
    by blast
  note f = users_broadcast_result [OF call]
  have "senderId r = None"
    by (simp add: f(6) none)
  moreover have "attempts c' = attempts c @ map u_id (filter (\<lambda>usr. truthy (u_pushToken usr)) (db c))"
    using f(5) by (simp add: none usersWithTokens_nobody)
  moreover have "total r = length (filter (\<lambda>usr. truthy (u_pushToken usr)) (db c))"
    using f(3) by (simp add: none usersWithTokens_nobody)
  ultimately show "\<exists>r c'. sendBroadcastNotification_users p ex (Some False) c = (Inr r, c') \<and>
        senderId r = None \<and>
        attempts c' = attempts c @ map u_id (filter (\<lambda>usr. truthy (u_pushToken usr)) (db c)) \<and>
        total r = length (filter (\<lambda>usr. truthy (u_pushToken usr)) (db c))"
    using call by blast
qed

theorem anonymous_broadcast_excludes_nobody_witness:
  "getCurrentUser (usersCtx None failsOnce) = None
   \<and> sendBroadcastNotification_users scripted (Some True) (Some False) (usersCtx None failsOnce)
       = (Inr anonymousOutcome,
          (usersCtx None [])\<lparr>attempts := [''alice'', ''bob'', ''dave'']\<rparr>)
   \<and> senderId anonymousOutcome = None
   \<and> map u_id (filter (\<lambda>usr. truthy (u_pushToken usr)) (db (usersCtx None failsOnce)))
       = [''alice'', ''bob'', ''dave'']
   \<and> total anonymousOutcome = 3"
proof -
  have none: "getCurrentUser (usersCtx None failsOnce) = None"
    by (simp add: handler_defs example_defs)
  have sel: "map u_id (filter (\<lambda>usr. truthy (u_pushToken usr)) (db (usersCtx None failsOnce)))
       = [''alice'', ''bob'', ''dave'']"
    by (simp add: example_defs)
  from anonymous_broadcast_excludes_nobody
         [of "usersCtx None failsOnce" scripted "Some True"] none anonymous_scenario
  have "senderId anonymousOutcome = None
        \<and> total anonymousOutcome
            = length (filter (\<lambda>usr. truthy (u_pushToken usr)) (db (usersCtx None failsOnce)))"
    by auto
  with sel have "senderId anonymousOutcome = None" "total anonymousOutcome = 3"
    using length_map [of u_id "filter (\<lambda>usr. truthy (u_pushToken usr)) (db (usersCtx None failsOnce))"]
    by simp_all
  with none anonymous_scenario sel show ?thesis
    by (intro conjI)
qed

subsection \<open>Devices without an active flag\<close>

lemma status_deviceEntry: "status (deviceEntry i x) \<noteq> Inactive"
  by (cases x) auto

lemma no_inactive_among_attempted:
  "filter (\<lambda>d. status d = Inactive) (map2 deviceEntry ids rs) = []"
  by (auto simp: filter_empty_conv status_deviceEntry)

lemma inactive_entries_kept:
  "filter (\<lambda>d. status d = Inactive) (map inactiveEntry ds) = map inactiveEntry ds"
  by (induction ds) (simp_all add: inactiveEntry_def)

lemma inactiveDevices_eq:
  "inactiveDevices ex ds = filter (\<lambda>dev. \<not> excludedDevice ex dev \<and> isActive dev = Some False) ds"
  unfolding inactiveDevices_def
  by (rule filter_cong) auto

text \<open>
  C10. In the broadcast of the device variant, a device of the table whose \<open>isActive\<close> field
  is absent, and which is not the excluded one, is eligible and a send is attempted for it;
  the entries of \<open>details\<close> with status \<open>inactive\<close> are those of the devices, not excluded,
  whose \<open>isActive\<close> is \<open>false\<close>, and no others.
\<close>

theorem absent_flag_is_active:
  "sendBroadcastNotification_devices p ex c = (Inr r, c') \<longrightarrow>
     attempts c' = attempts c @ map d_id (activeDevices ex (db c)) \<and>
     (\<forall>dev \<in> set (db c). isActive dev = None \<and> \<not> excludedDevice ex dev \<longrightarrow>
         dev \<in> set (activeDevices ex (db c)) \<and>
         d_id dev \<in> set (map d_id (activeDevices ex (db c)))) \<and>
     filter (\<lambda>d. status d = Inactive) (details r)
       = map inactiveEntry
           (filter (\<lambda>dev. \<not> excludedDevice ex dev \<and> isActive dev = Some False) (db c))"
proof
  assume call: "sendBroadcastNotification_devices p ex c = (Inr r, c')"
  note f = devices_broadcast_result [OF call]
  have "\<forall>dev \<in> set (db c). isActive dev = None \<and> \<not> excludedDevice ex dev \<longrightarrow>
         dev \<in> set (activeDevices ex (db c)) \<and>
         d_id dev \<in> set (map d_id (activeDevices ex (db c)))"
    by (auto simp: activeDevices_def)
  moreover have "filter (\<lambda>d. status d = Inactive) (details r)
       = map inactiveEntry
           (filter (\<lambda>dev. \<not> excludedDevice ex dev \<and> isActive dev = Some False) (db c))"
    unfolding f(4) filter_append no_inactive_among_attempted inactive_entries_kept
      inactiveDevices_eq
    by simp
  ultimately show "attempts c' = attempts c @ map d_id (activeDevices ex (db c)) \<and>
     (\<forall>dev \<in> set (db c). isActive dev = None \<and> \<not> excludedDevice ex dev \<longrightarrow>
         dev \<in> set (activeDevices ex (db c)) \<and>
         d_id dev \<in> set (map d_id (activeDevices ex (db c)))) \<and>
     filter (\<lambda>d. status d = Inactive) (details r)
       = map inactiveEntry
           (filter (\<lambda>dev. \<not> excludedDevice ex dev \<and> isActive dev = Some False) (db c))"
    using f(5) by blast
qed

theorem absent_flag_is_active_witness:
  "sendBroadcastNotification_devices scripted None (devicesCtx failsOnce)
       = (Inr devicesOutcome, (devicesCtx [])\<lparr>attempts := [''d1'', ''d2'', ''d4'']\<rparr>)
   \<and> tablet \<in> set (db (devicesCtx failsOnce))
   \<and> isActive tablet = None
   \<and> \<not> excludedDevice None tablet
   \<and> map d_id (activeDevices None (db (devicesCtx failsOnce))) = [''d1'', ''d2'', ''d4'']
   \<and> d_id tablet \<in> set [''d1'', ''d2'', ''d4'']
   \<and> filter (\<lambda>d. status d = Inactive) (details devicesOutcome) = [inactiveEntry retired]"
proof -
  have t: "tablet \<in> set (db (devicesCtx failsOnce))" "isActive tablet = None"
    "\<not> excludedDevice None tablet"
    by (simp_all add: handler_defs example_defs)
  have sel: "map d_id (activeDevices None (db (devicesCtx failsOnce))) = [''d1'', ''d2'', ''d4'']"
    "filter (\<lambda>dev. \<not> excludedDevice None dev \<and> isActive dev = Some False)
       (db (devicesCtx failsOnce)) = [retired]"
    by (simp_all add: handler_defs example_defs)
  note inst = absent_flag_is_active
    [of scripted None "devicesCtx failsOnce" devicesOutcome
        "(devicesCtx [])\<lparr>attempts := [''d1'', ''d2'', ''d4'']\<rparr>"]
  from inst devices_scenario t
  have a: "d_id tablet \<in> set (map d_id (activeDevices None (db (devicesCtx failsOnce))))"
    by blast
  from inst devices_scenario
  have b: "filter (\<lambda>d. status d = Inactive) (details devicesOutcome)
             = map inactiveEntry
                 (filter (\<lambda>dev. \<not> excludedDevice None dev \<and> isActive dev = Some False)
                    (db (devicesCtx failsOnce)))"
    by blast
  from a b have "d_id tablet \<in> set [''d1'', ''d2'', ''d4'']"
    "filter (\<lambda>d. status d = Inactive) (details devicesOutcome) = [inactiveEntry retired]"
    by (simp_all only: sel list.map)
  with devices_scenario t sel(1) show ?thesis
    by (intro conjI)
qed

subsection \<open>Registering a token twice\<close>

lemma find_map_preserving:
  "(\<And>x. P (g x) = P x) \<Longrightarrow> find P (map g xs) = map_option g (find P xs)"
  by (induction xs) simp_all

lemma find_appended:
  "find P xs = None \<Longrightarrow> P x \<Longrightarrow> find P (xs @ [x]) = Some x"
  by (induction xs) (simp_all split: if_splits)

lemma db_get_patched:
  "(\<And>r. key (f r) = key r) \<Longrightarrow>
     db_get key j (db_patch key i f rows)
       = map_option (\<lambda>r. if key r = i then f r else r) (db_get key j rows)"
  unfolding db_get_def db_patch_def
  by (rule find_map_preserving) simp

lemma db_patch_keys:
  "(\<And>r. key (f r) = key r) \<Longrightarrow> map key (db_patch key i f rows) = map key rows"
  by (induction rows) (simp_all add: db_patch_def)

lemma db_patch_twice:
  "(\<And>r. key (f r) = key r) \<Longrightarrow> (\<And>r. f (f r) = f r) \<Longrightarrow>
     db_patch key i f (db_patch key i f rows) = db_patch key i f rows"
  by (induction rows) (simp_all add: db_patch_def)

lemma length_db_patch: "length (db_patch key i f rows) = length rows"
  by (simp add: db_patch_def)

lemma registered_row_found:
  assumes "registerDevice p t a1 a2 a3 now1 new1 c = (Inr d, c1)"
  shows "\<exists>dev. find (\<lambda>x. d_pushToken x = t) (db c1) = Some dev \<and> d_id dev = d"
proof (cases "find (\<lambda>x. d_pushToken x = t) (db c)")
  case None
  obtain res w' where rt: "recordToken p (push c) new1 t = (res, w')"
    by (cases "recordToken p (push c) new1 t")
  show ?thesis
  proof (cases res)
    case (Some e)
    with assms None rt show ?thesis
      by (simp add: registerDevice_def)
  next
    case n: None
    from assms None rt n have d: "d = new1"
      and c1: "db c1 = db c @ [\<lparr>d_id = new1, d_pushToken = t, deviceId = a1, platform = a2,
                            appVersion = a3, lastSeen = now1, isActive = Some True\<rparr>]"
      by (auto simp: registerDevice_def)
    from None show ?thesis
      unfolding c1 d by (simp add: find_appended)
  qed
next
  case (Some ex)
  with assms have d: "d = d_id ex"
    and c1: "c1 = c\<lparr>db := db_patch d_id (d_id ex)
                      (\<lambda>x. x\<lparr>lastSeen := now1, isActive := Some True, platform := a2,
                              appVersion := a3, deviceId := a1\<rparr>) (db c)\<rparr>"
    by (auto simp: registerDevice_def)
  have "find (\<lambda>x. d_pushToken x = t) (db c1)
          = map_option (\<lambda>r. if d_id r = d_id ex
               then r\<lparr>lastSeen := now1, isActive := Some True, platform := a2,
                      appVersion := a3, deviceId := a1\<rparr> else r)
              (find (\<lambda>x. d_pushToken x = t) (db c))"
    unfolding c1 db_patch_def by (simp add: find_map_preserving)
  with Some d show ?thesis
    by simp
qed

lemma register_again:
  assumes "registerDevice p t a1 a2 a3 now1 new1 c = (Inr d, c1)"
  shows "registerDevice p t b1 b2 b3 now2 new2 c1
           = (Inr d, c1\<lparr>db := db_patch d_id d
                (\<lambda>x. x\<lparr>lastSeen := now2, isActive := Some True, platform := b2,
                        appVersion := b3, deviceId := b1\<rparr>) (db c1)\<rparr>)"
proof -
  from registered_row_found [OF assms] obtain dev
    where "find (\<lambda>x. d_pushToken x = t) (db c1) = Some dev" and "d_id dev = d"
    by blast
  then show ?thesis
    by (simp add: registerDevice_def)
qed

lemma record_again:
  assumes "recordPushToken q t cu = (Inr (), cu1)"
  shows "map u_id (db cu1) = map u_id (db cu)"
    and "map_option u_id (getCurrentUser cu1) = map_option u_id (getCurrentUser cu)"
    and "db (snd (recordPushToken q t cu1)) = db cu1"
proof -
  from assms obtain usr w' where usr: "getCurrentUser cu = Some usr"
    and cu1: "cu1 = cu\<lparr>db := db_patch u_id (u_id usr) (\<lambda>r. r\<lparr>u_pushToken := Some t\<rparr>) (db cu),
                      push := w'\<rparr>"
    by (auto simp: recordPushToken_def split: option.splits prod.splits)
  show "map u_id (db cu1) = map u_id (db cu)"
    unfolding cu1 by (simp add: db_patch_keys)
  from usr have a: "auth cu \<noteq> None" and g: "getCurrentUser cu = db_get u_id (the (auth cu)) (db cu)"
    by (auto simp: getCurrentUser_def split: option.splits if_splits)
  from usr g have uid: "u_id usr = the (auth cu)"
    by (auto simp: db_get_def find_Some_iff)
  have g1: "getCurrentUser cu1
      = map_option (\<lambda>r. if u_id r = u_id usr then r\<lparr>u_pushToken := Some t\<rparr> else r)
          (getCurrentUser cu)"
    using usr a unfolding cu1 getCurrentUser_def
    by (auto simp: db_get_patched split: option.splits if_splits)
  with usr show "map_option u_id (getCurrentUser cu1) = map_option u_id (getCurrentUser cu)"
    by simp
  from g1 usr have usr1: "getCurrentUser cu1 = Some (usr\<lparr>u_pushToken := Some t\<rparr>)"
    by simp
  have "db_patch u_id (u_id usr) (\<lambda>r. r\<lparr>u_pushToken := Some t\<rparr>) (db cu1) = db cu1"
    unfolding cu1 by (simp add: db_patch_twice)
  with usr1 show "db (snd (recordPushToken q t cu1)) = db cu1"
    by (simp add: recordPushToken_def split: option.splits prod.splits)
qed

text \<open>
  C5. Device variant: when \<open>registerDevice\<close> has returned the id \<open>d\<close> for a token, a second
  \<open>registerDevice\<close> of the same token on the state the first one left, with any metadata,
  clock and fresh id, returns \<open>d\<close> again; it finds the row by the token and only patches
  it, so the table has the same number of rows, with the same ids and tokens, and the
  component is not called. User variant: \<open>recordPushToken\<close> returns \<open>null\<close>; when it has
  returned, the table has the same rows by id, the current user is the same recipient, and
  a second \<open>recordPushToken\<close> of the same token leaves the table as the first one left it.
\<close>

theorem registration_idempotent:
  "(registerDevice p t a1 a2 a3 now1 new1 c = (Inr d, c1) \<longrightarrow>
      registerDevice p t b1 b2 b3 now2 new2 c1
        = (Inr d, c1\<lparr>db := db_patch d_id d
             (\<lambda>x. x\<lparr>lastSeen := now2, isActive := Some True, platform := b2,
                     appVersion := b3, deviceId := b1\<rparr>) (db c1)\<rparr>) \<and>
      length (db (snd (registerDevice p t b1 b2 b3 now2 new2 c1))) = length (db c1) \<and>
      map d_id (db (snd (registerDevice p t b1 b2 b3 now2 new2 c1))) = map d_id (db c1) \<and>
      map d_pushToken (db (snd (registerDevice p t b1 b2 b3 now2 new2 c1)))
        = map d_pushToken (db c1) \<and>
      push (snd (registerDevice p t b1 b2 b3 now2 new2 c1)) = push c1)
   \<and> (recordPushToken q tu cu = (Inr (), cu1) \<longrightarrow>
      map u_id (db cu1) = map u_id (db cu) \<and>
      map_option u_id (getCurrentUser cu1) = map_option u_id (getCurrentUser cu) \<and>
      db (snd (recordPushToken q tu cu1)) = db cu1)"
proof (intro conjI impI)
  assume a: "registerDevice p t a1 a2 a3 now1 new1 c = (Inr d, c1)"
  note again = register_again [OF a, of b1 b2 b3 now2 new2]
  show "registerDevice p t b1 b2 b3 now2 new2 c1
        = (Inr d, c1\<lparr>db := db_patch d_id d
             (\<lambda>x. x\<lparr>lastSeen := now2, isActive := Some True, platform := b2,
                     appVersion := b3, deviceId := b1\<rparr>) (db c1)\<rparr>)"
    by (rule again)
  show "length (db (snd (registerDevice p t b1 b2 b3 now2 new2 c1))) = length (db c1)"
    by (simp add: again length_db_patch)
  show "map d_id (db (snd (registerDevice p t b1 b2 b3 now2 new2 c1))) = map d_id (db c1)"
    by (simp add: again db_patch_keys)
  show "map d_pushToken (db (snd (registerDevice p t b1 b2 b3 now2 new2 c1)))
        = map d_pushToken (db c1)"
    by (simp add: again db_patch_def comp_def)
  show "push (snd (registerDevice p t b1 b2 b3 now2 new2 c1)) = push c1"
    by (simp add: again)
next
  assume a: "recordPushToken q tu cu = (Inr (), cu1)"
  show "map u_id (db cu1) = map u_id (db cu)"
    by (rule record_again(1) [OF a])
  show "map_option u_id (getCurrentUser cu1) = map_option u_id (getCurrentUser cu)"
    by (rule record_again(2) [OF a])
  show "db (snd (recordPushToken q tu cu1)) = db cu1"
    by (rule record_again(3) [OF a])
qed


theorem registration_idempotent_witness:
  "registerDevice scripted ''tok-9'' (Some ''hw-9'') (Some ''ios'') None 1000 ''d9'' (devicesCtx [])
     = (Inr ''d9'', registeredCtx)
   \<and> fst (registerDevice scripted ''tok-9'' None (Some ''android'') (Some ''2.0'') 2000 ''d10''
            registeredCtx) = Inr ''d9''
   \<and> length (db (snd (registerDevice scripted ''tok-9'' None (Some ''android'') (Some ''2.0'')
                        2000 ''d10'' registeredCtx))) = 5
   \<and> recordPushToken scripted ''tok-C'' (usersCtx (Some ''carol'') []) = (Inr (), recordedCtx)
   \<and> db (snd (recordPushToken scripted ''tok-C'' recordedCtx)) = db recordedCtx"
proof -
  have first: "registerDevice scripted ''tok-9'' (Some ''hw-9'') (Some ''ios'') None 1000 ''d9''
      (devicesCtx []) = (Inr ''d9'', registeredCtx)"
    by (simp add: registerDevice_def registeredCtx_def example_defs)
  have rec: "recordPushToken scripted ''tok-C'' (usersCtx (Some ''carol'') []) = (Inr (), recordedCtx)"
    by (simp add: recordPushToken_def recordedCtx_def getCurrentUser_def db_get_def db_patch_def
        example_defs)
  have len: "length (db registeredCtx) = 5"
    by (simp add: registeredCtx_def)
  note inst = registration_idempotent
    [of scripted "''tok-9''" "Some ''hw-9''" "Some ''ios''" None 1000 "''d9''" "devicesCtx []"
        "''d9''" registeredCtx None "Some ''android''" "Some ''2.0''" 2000 "''d10''"
        scripted "''tok-C''" "usersCtx (Some ''carol'') []" recordedCtx]
  from inst [THEN conjunct1] first
  have eq: "registerDevice scripted ''tok-9'' None (Some ''android'') (Some ''2.0'') 2000 ''d10''
              registeredCtx
            = (Inr ''d9'', registeredCtx\<lparr>db := db_patch d_id ''d9''
                 (\<lambda>x. x\<lparr>lastSeen := 2000, isActive := Some True, platform := Some ''android'',
                         appVersion := Some ''2.0'', deviceId := None\<rparr>) (db registeredCtx)\<rparr>)"
    and a2: "length (db (snd (registerDevice scripted ''tok-9'' None (Some ''android'')
                (Some ''2.0'') 2000 ''d10'' registeredCtx))) = length (db registeredCtx)"
    by blast+
  from eq have a1: "fst (registerDevice scripted ''tok-9'' None (Some ''android'') (Some ''2.0'')
              2000 ''d10'' registeredCtx) = Inr ''d9''"
    by simp
  from inst [THEN conjunct2] rec
  have b: "db (snd (recordPushToken scripted ''tok-C'' recordedCtx)) = db recordedCtx"
    by blast
  from first a1 a2 [unfolded len] rec b show ?thesis
    by (intro conjI)
qed

subsection \<open>Sending to one recipient\<close>

text \<open>
  C6 (as amended). A send to a recipient id that resolves to no row fails without a send
  being attempted: the context, and with it the list of attempts, is returned unchanged.
  In the device variant the error is \<open>Device not found\<close>. In the user variant it is
  \<open>Recipient not found\<close> when the caller is signed in; a caller who is not is refused first,
  with the authentication error. In the device variant the send also fails, with
  \<open>Device is not active\<close>, when the device found is marked inactive.
\<close>

theorem send_to_missing_recipient:
  "(db_get u_id rid (db c) = None \<longrightarrow>
      (getCurrentUser c \<noteq> None \<longrightarrow>
         sendNotificationToUser p rid c = (Inl (ConvexError ''Recipient not found''), c)) \<and>
      (getCurrentUser c = None \<longrightarrow>
         sendNotificationToUser p rid c
           = (Inl (ConvexError ''User must be authenticated to send notifications''), c)))
   \<and> (db_get d_id did (db cd) = None \<longrightarrow>
      sendNotificationToDevice pd did now cd = (Inl (ConvexError ''Device not found''), cd))
   \<and> (db_get d_id did' (db cd') = Some dev \<and> isActive dev = Some False \<longrightarrow>
      sendNotificationToDevice pd' did' now' cd'
        = (Inl (ConvexError ''Device is not active''), cd'))"
  by (auto simp: sendNotificationToUser_def sendNotificationToDevice_def)

theorem send_to_missing_recipient_witness:
  "db_get u_id ''zed'' (db (usersCtx (Some ''alice'') failsOnce)) = None
   \<and> getCurrentUser (usersCtx (Some ''alice'') failsOnce) \<noteq> None
   \<and> sendNotificationToUser scripted ''zed'' (usersCtx (Some ''alice'') failsOnce)
       = (Inl (ConvexError ''Recipient not found''), usersCtx (Some ''alice'') failsOnce)
   \<and> db_get d_id ''d7'' (db (devicesCtx failsOnce)) = None
   \<and> sendNotificationToDevice scripted ''d7'' 500 (devicesCtx failsOnce)
       = (Inl (ConvexError ''Device not found''), devicesCtx failsOnce)
   \<and> db_get d_id ''d3'' (db (devicesCtx failsOnce)) = Some retired
   \<and> isActive retired = Some False
   \<and> sendNotificationToDevice scripted ''d3'' 500 (devicesCtx failsOnce)
       = (Inl (ConvexError ''Device is not active''), devicesCtx failsOnce)"
proof -
  have h: "db_get u_id ''zed'' (db (usersCtx (Some ''alice'') failsOnce)) = None"
    "getCurrentUser (usersCtx (Some ''alice'') failsOnce) \<noteq> None"
    "db_get d_id ''d7'' (db (devicesCtx failsOnce)) = None"
    "db_get d_id ''d3'' (db (devicesCtx failsOnce)) = Some retired"
    "isActive retired = Some False"
    by (simp_all add: getCurrentUser_def db_get_def example_defs)
  note inst = send_to_missing_recipient
    [of "''zed''" "usersCtx (Some ''alice'') failsOnce" scripted
        "''d7''" "devicesCtx failsOnce" scripted 500
        "''d3''" "devicesCtx failsOnce" retired scripted 500]
  from inst h show ?thesis
    by simp
qed

text \<open>
  The claim as written fails in the user variant: a caller who is not signed in and names
  a recipient that does not exist gets the authentication error, not the not-found error.
\<close>

theorem send_to_missing_recipient_counterexample:
  "db_get u_id ''zed'' (db (usersCtx None failsOnce)) = None
   \<and> sendNotificationToUser scripted ''zed'' (usersCtx None failsOnce)
       = (Inl (ConvexError ''User must be authenticated to send notifications''),
          usersCtx None failsOnce)
   \<and> ConvexError ''User must be authenticated to send notifications''
       \<noteq> ConvexError ''Recipient not found''"
  by (simp add: sendNotificationToUser_def getCurrentUser_def db_get_def example_defs)

subsection \<open>Status of a recipient that does not resolve\<close>

text \<open>
  C8. \<open>getMyPushStatus\<close> when no current user resolves, and \<open>getDevicePushStatus\<close> for an
  id with no row, return the default status, \<open>hasToken\<close> and \<open>paused\<close> false (and \<open>isActive\<close>
  false in the device variant), whatever the component is: they do not fail.
\<close>

theorem status_of_missing_recipient:
  "(getCurrentUser c = None \<longrightarrow>
      getMyPushStatus p c = Inr \<lparr>hasToken = False, paused = False\<rparr>)
   \<and> (db_get d_id did (db cd) = None \<longrightarrow>
      getDevicePushStatus pd did cd
        = Inr \<lparr>hasToken = False, paused = False, statusIsActive = False\<rparr>)"
  by (simp add: getMyPushStatus_def getDevicePushStatus_def)

theorem status_of_missing_recipient_witness:
  "getCurrentUser (usersCtx None failsOnce) = None
   \<and> getMyPushStatus scripted (usersCtx None failsOnce)
       = Inr \<lparr>hasToken = False, paused = False\<rparr>
   \<and> db_get d_id ''d7'' (db (devicesCtx failsOnce)) = None
   \<and> getDevicePushStatus scripted ''d7'' (devicesCtx failsOnce)
       = Inr \<lparr>hasToken = False, paused = False, statusIsActive = False\<rparr>"
proof -
  have h: "getCurrentUser (usersCtx None failsOnce) = None"
    "db_get d_id ''d7'' (db (devicesCtx failsOnce)) = None"
    by (simp_all add: getCurrentUser_def db_get_def example_defs)
  from status_of_missing_recipient
         [of "usersCtx None failsOnce" scripted "''d7''" "devicesCtx failsOnce" scripted] h
  show ?thesis
    by simp
qed

subsection \<open>Removing a token\<close>

lemma removeDeviceToken_found:
  assumes "db_get d_id d (db c) = Some dev"
  shows "removeDeviceToken p d c =
           (case removeToken p (push c) d of
              (Some e, w') \<Rightarrow> (Inl (Uncaught e), c)
            | (None, w') \<Rightarrow>
                (Inr (), c\<lparr>db := db_patch d_id d (\<lambda>x. x\<lparr>isActive := Some False\<rparr>) (db c),
                           push := w'\<rparr>))"
  using assms by (simp add: removeDeviceToken_def)

lemma removed_device_inactive:
  assumes "db_get d_id d rows = Some dev"
  shows "db_get d_id d (db_patch d_id d (\<lambda>x. x\<lparr>isActive := Some False\<rparr>) rows)
           = Some (dev\<lparr>isActive := Some False\<rparr>)"
proof -
  from assms have "d_id dev = d"
    by (auto simp: db_get_def find_Some_iff)
  with assms show ?thesis
    by (simp add: db_get_patched)
qed

lemma remove_device_again:
  assumes "db_get d_id d (db c) = Some dev" and "removeToken p (push c) d = (None, w')"
  shows "\<exists>c1 dev1. removeDeviceToken p d c = (Inr (), c1) \<and>
           db_get d_id d (db c1) = Some dev1 \<and> isActive dev1 = Some False \<and>
           length (db c1) = length (db c)"
  using assms removed_device_inactive [OF assms(1)]
  by (simp add: removeDeviceToken_found length_db_patch)

lemma remove_device_own_error:
  assumes "db_get d_id d (db c) = Some dev"
  shows "fst (removeDeviceToken p d c) \<noteq> Inl (ConvexError m)"
  using assms
  by (cases "removeToken p (push c) d")
     (auto simp: removeDeviceToken_found split: option.splits)

lemma remove_device_twice:
  assumes "removeDeviceToken p d c = (Inr (), c1)" and "removeDeviceToken p d c1 = (Inr (), c2)"
  shows "db c2 = db c1"
proof -
  from assms(1) have 1: "db c1 = db_patch d_id d (\<lambda>x. x\<lparr>isActive := Some False\<rparr>) (db c)"
    by (auto simp: removeDeviceToken_def split: option.splits prod.splits)
  from assms(2) have 2: "db c2 = db_patch d_id d (\<lambda>x. x\<lparr>isActive := Some False\<rparr>) (db c1)"
    by (auto simp: removeDeviceToken_def split: option.splits prod.splits)
  show ?thesis
    unfolding 2 1 by (simp add: db_patch_twice)
qed

lemma remove_device_not_found:
  "fst (removeDeviceToken p d c) = Inl (ConvexError ''Device not found'')
     \<longleftrightarrow> db_get d_id d (db c) = None"
  by (cases "removeToken p (push c) d")
     (auto simp: removeDeviceToken_def split: option.splits)

lemma remove_user_twice:
  assumes "removePushToken q cu = (Inr (), cu1)" and "removePushToken q cu1 = (Inr (), cu2)"
  shows "db cu2 = db cu1"
proof -
  from assms(1) obtain usr where usr: "getCurrentUser cu = Some usr"
    and 1: "db cu1 = db_patch u_id (u_id usr) (\<lambda>r. r\<lparr>u_pushToken := None\<rparr>) (db cu)"
    and a1: "auth cu1 = auth cu"
    by (auto simp: removePushToken_def split: option.splits prod.splits)
  from usr have a: "auth cu \<noteq> None"
    by (auto simp: getCurrentUser_def split: option.splits)
  have "getCurrentUser cu1
      = map_option (\<lambda>r. if u_id r = u_id usr then r\<lparr>u_pushToken := None\<rparr> else r)
          (getCurrentUser cu)"
    using usr a unfolding getCurrentUser_def a1 1
    by (auto simp: db_get_patched split: option.splits if_splits)
  with usr have usr1: "getCurrentUser cu1 = Some (usr\<lparr>u_pushToken := None\<rparr>)"
    by simp
  from assms(2) usr1
  have 2: "db cu2 = db_patch u_id (u_id usr) (\<lambda>r. r\<lparr>u_pushToken := None\<rparr>) (db cu1)"
    by (auto simp: removePushToken_def split: option.splits prod.splits)
  show ?thesis
    unfolding 2 1 by (simp add: db_patch_twice)
qed

lemma remove_user_own_error:
  "fst (removePushToken q cu) = Inl (ConvexError m) \<Longrightarrow> getCurrentUser cu = None"
  by (cases "getCurrentUser cu"; cases "removeToken q (push cu) (u_id (the (getCurrentUser cu)))")
     (auto simp: removePushToken_def split: option.splits)

text \<open>
  C7. Device variant: for a device that exists and is already marked inactive,
  \<open>removeDeviceToken\<close> raises no error of its own; when the component's \<open>removeToken\<close>
  returns, the removal returns, the device is still there and inactive and no row is added
  or lost. Two removals in a row leave the table as one does. The removal fails with
  \<open>Device not found\<close> exactly when no row has the id. User variant: two removals in a row
  leave the table as one does, and \<open>removePushToken\<close> raises an error of its own only when
  the caller's user record does not resolve.
\<close>

theorem token_removal_idempotent:
  "(db_get d_id d (db c) = Some dev \<and> isActive dev = Some False \<longrightarrow>
      (\<forall>m. fst (removeDeviceToken p d c) \<noteq> Inl (ConvexError m)) \<and>
      (\<forall>w'. removeToken p (push c) d = (None, w') \<longrightarrow>
         (\<exists>c1 dev1. removeDeviceToken p d c = (Inr (), c1) \<and>
            db_get d_id d (db c1) = Some dev1 \<and> isActive dev1 = Some False \<and>
            length (db c1) = length (db c))))
   \<and> (removeDeviceToken p d c = (Inr (), c1) \<and> removeDeviceToken p d c1 = (Inr (), c2) \<longrightarrow>
        db c2 = db c1)
   \<and> (fst (removeDeviceToken p d c) = Inl (ConvexError ''Device not found'')
        \<longleftrightarrow> db_get d_id d (db c) = None)
   \<and> (removePushToken q cu = (Inr (), cu1) \<and> removePushToken q cu1 = (Inr (), cu2) \<longrightarrow>
        db cu2 = db cu1)
   \<and> (fst (removePushToken q cu) = Inl (ConvexError mu) \<longrightarrow> getCurrentUser cu = None)"
proof (intro conjI impI allI)
  assume a: "db_get d_id d (db c) = Some dev \<and> isActive dev = Some False"
  then have found: "db_get d_id d (db c) = Some dev"
    by simp
  show "fst (removeDeviceToken p d c) \<noteq> Inl (ConvexError m)" for m
    by (rule remove_device_own_error [OF found])
  show "\<exists>c1 dev1. removeDeviceToken p d c = (Inr (), c1) \<and>
            db_get d_id d (db c1) = Some dev1 \<and> isActive dev1 = Some False \<and>
            length (db c1) = length (db c)"
    if "removeToken p (push c) d = (None, w')" for w'
    by (rule remove_device_again [OF found that])
next
  assume "removeDeviceToken p d c = (Inr (), c1) \<and> removeDeviceToken p d c1 = (Inr (), c2)"
  then show "db c2 = db c1"
    using remove_device_twice by blast
next
  show "fst (removeDeviceToken p d c) = Inl (ConvexError ''Device not found'')
        \<longleftrightarrow> db_get d_id d (db c) = None"
    by (rule remove_device_not_found)
next
  assume "removePushToken q cu = (Inr (), cu1) \<and> removePushToken q cu1 = (Inr (), cu2)"
  then show "db cu2 = db cu1"
    using remove_user_twice by blast
next
  assume "fst (removePushToken q cu) = Inl (ConvexError mu)"
  then show "getCurrentUser cu = None"
    by (rule remove_user_own_error)
qed


theorem token_removal_idempotent_witness:
  "removeDeviceToken scripted ''d1'' (devicesCtx []) = (Inr (), removedCtx)
   \<and> db_get d_id ''d1'' (db removedCtx) = Some (phone\<lparr>isActive := Some False\<rparr>)
   \<and> isActive (phone\<lparr>isActive := Some False\<rparr>) = Some False
   \<and> removeToken scripted (push removedCtx) ''d1'' = (None, [])
   \<and> removeDeviceToken scripted ''d1'' removedCtx = (Inr (), removedCtx)
   \<and> db (snd (removeDeviceToken scripted ''d1'' removedCtx)) = db removedCtx
   \<and> length (db removedCtx) = 4
   \<and> db_get d_id ''d7'' (db (devicesCtx [])) = None
   \<and> fst (removeDeviceToken scripted ''d7'' (devicesCtx [])) = Inl (ConvexError ''Device not found'')
   \<and> removePushToken scripted (usersCtx (Some ''carol'') [])
       = (Inr (), usersCtx (Some ''carol'') [])
   \<and> fst (removePushToken scripted (usersCtx None [])) = Inl (ConvexError ''User must be authenticated'')
   \<and> getCurrentUser (usersCtx None []) = None"
proof -
  have h: "db_get d_id ''d1'' (db removedCtx) = Some (phone\<lparr>isActive := Some False\<rparr>)"
    "isActive (phone\<lparr>isActive := Some False\<rparr>) = Some False"
    "removeToken scripted (push removedCtx) ''d1'' = (None, [])"
    "db_get d_id ''d7'' (db (devicesCtx [])) = None"
    "length (db removedCtx) = 4"
    by (simp_all add: db_get_def removedCtx_def example_defs)
  have first: "removeDeviceToken scripted ''d1'' (devicesCtx []) = (Inr (), removedCtx)"
    by (simp add: removeDeviceToken_def db_get_def db_patch_def removedCtx_def example_defs)
  have user: "removePushToken scripted (usersCtx (Some ''carol'') [])
       = (Inr (), usersCtx (Some ''carol'') [])"
    by (simp add: removePushToken_def getCurrentUser_def db_get_def db_patch_def example_defs)
  have anon: "fst (removePushToken scripted (usersCtx None []))
       = Inl (ConvexError ''User must be authenticated'')"
    by (simp add: removePushToken_def getCurrentUser_def example_defs)
  note again = token_removal_idempotent
    [of "''d1''" removedCtx "phone\<lparr>isActive := Some False\<rparr>" scripted removedCtx removedCtx
        scripted "usersCtx None []" "usersCtx None []" "usersCtx None []"
        "''User must be authenticated''"]
  note missing = token_removal_idempotent
    [of "''d7''" "devicesCtx []" retired scripted "devicesCtx []" "devicesCtx []"
        scripted "usersCtx None []" "usersCtx None []" "usersCtx None []"
        "''User must be authenticated''"]
  from again [THEN conjunct1] h(1-3) obtain c1
    where twice': "removeDeviceToken scripted ''d1'' removedCtx = (Inr (), c1)"
      and len: "length (db c1) = length (db removedCtx)"
    by blast
  have twice: "removeDeviceToken scripted ''d1'' removedCtx = (Inr (), removedCtx)"
    by (simp add: removeDeviceToken_def db_get_def db_patch_def removedCtx_def example_defs)
  from again [THEN conjunct2, THEN conjunct1] twice
  have same: "db (snd (removeDeviceToken scripted ''d1'' removedCtx)) = db removedCtx"
    by simp
  from missing [THEN conjunct2, THEN conjunct2, THEN conjunct1] h(4)
  have nf: "fst (removeDeviceToken scripted ''d7'' (devicesCtx []))
       = Inl (ConvexError ''Device not found'')"
    by blast
  from again [THEN conjunct2, THEN conjunct2, THEN conjunct2, THEN conjunct2] anon
  have none: "getCurrentUser (usersCtx None []) = None"
    by blast
  from first h(1-3) twice same h(5) h(4) nf user anon none show ?thesis
    by (intro conjI)
qed

end
